theory Spec2Isabelle
  imports Main "HOL-Library.Word"
begin

section \<open>Python values shared by the pipeline stages and the agent demos\<close>

text \<open>
  Python \<open>str\<close> is modelled as \<^typ>\<open>string\<close>, \<open>bytes\<close> as a list of 8-bit words.
  Exceptions are values: an operation that can raise returns \<open>exn + 'a\<close>, with
  \<open>Inl\<close> for the raised exception. The constructors are the exception classes
  that some \<open>except\<close> clause of the repository tells apart; \<open>OtherError\<close> stands
  for every other subclass of \<open>Exception\<close>.
\<close>

type_synonym byte = "8 word"

datatype exn =
    KeyError string
  | AttributeError string
  | TypeError string
  | ValueError string
  | UnicodeDecodeError string
  | JSONDecodeError string
  | RequestException string
  | OtherError string

text \<open>\<open>str(e)\<close>: a \<open>KeyError\<close> prints the repr of its key, the others their message.\<close>

fun str_exn :: "exn \<Rightarrow> string" where
  "str_exn (KeyError k) = [CHR 0x27] @ k @ [CHR 0x27]"
| "str_exn (AttributeError m) = m"
| "str_exn (TypeError m) = m"
| "str_exn (ValueError m) = m"
| "str_exn (UnicodeDecodeError m) = m"
| "str_exn (JSONDecodeError m) = m"
| "str_exn (RequestException m) = m"
| "str_exn (OtherError m) = m"

text \<open>
  JSON values as \<open>json.loads\<close> returns them. A float is kept as its repr, no
  arithmetic is done on it. An object is an association list; \<open>map_of\<close> reads it.
\<close>

datatype json =
    JNull
  | JBool bool
  | JInt int
  | JFloat string
  | JStr string
  | JArr "json list"
  | JObj "(string \<times> json) list"

fun type_name :: "json \<Rightarrow> string" where
  "type_name JNull = ''NoneType''"
| "type_name (JBool _) = ''bool''"
| "type_name (JInt _) = ''int''"
| "type_name (JFloat _) = ''float''"
| "type_name (JStr _) = ''str''"
| "type_name (JArr _) = ''list''"
| "type_name (JObj _) = ''dict''"

text \<open>\<open>v.get(k)\<close>: \<open>None\<close> for a missing key, \<open>AttributeError\<close> when \<open>v\<close> is no dict.\<close>

fun py_get :: "json \<Rightarrow> string \<Rightarrow> exn + json" where
  "py_get (JObj kvs) k = Inr (case map_of kvs k of None \<Rightarrow> JNull | Some v \<Rightarrow> v)"
| "py_get v k =
     Inl (AttributeError ([CHR 0x27] @ type_name v @ [CHR 0x27] @
                          '' object has no attribute '' @ [CHR 0x27] @ ''get'' @ [CHR 0x27]))"

definition digit_char :: "nat \<Rightarrow> char" where
  "digit_char d = char_of (48 + d)"

fun str_nat :: "nat \<Rightarrow> string" where
  "str_nat n = (if n < 10 then [digit_char n] else str_nat (n div 10) @ [digit_char (n mod 10)])"

declare str_nat.simps [simp del]

definition str_int :: "int \<Rightarrow> string" where
  "str_int i = (if i < 0 then CHR ''-'' # str_nat (nat (- i)) else str_nat (nat i))"

text \<open>
  \<open>f"{v}"\<close> for a JSON value. The repr of a list or dict is left to the parameter
  \<open>repr_container\<close>.
\<close>

fun py_format :: "(json \<Rightarrow> string) \<Rightarrow> json \<Rightarrow> string" where
  "py_format repr_container JNull = ''None''"
| "py_format repr_container (JBool b) = (if b then ''True'' else ''False'')"
| "py_format repr_container (JInt i) = str_int i"
| "py_format repr_container (JFloat r) = r"
| "py_format repr_container (JStr s) = s"
| "py_format repr_container v = repr_container v"

text \<open>\<open>f"{k}"\<close> for a configuration value read with \<open>os.getenv\<close>, which may be \<open>None\<close>.\<close>

definition format_env :: "string option \<Rightarrow> string" where
  "format_env k = (case k of None \<Rightarrow> ''None'' | Some s \<Rightarrow> s)"


section \<open>The website-crawl tool (strands\_agents/using\_multiple\_agents.py)\<close>

text \<open>
  The crawl service is a parameter: \<open>requests_post\<close> and \<open>requests_get\<close> either
  raise or return a response, whose \<open>.json()\<close> either raises or returns a value.
  Every request the tool issues is recorded, in order, with its headers.
\<close>

type_synonym headers = "(string \<times> string) list"

datatype request =
    POST string json headers
  | GET string headers

record crawl_env =
  FIRECRAWL_API_KEY :: "string option"
  requests_post :: "string \<Rightarrow> json \<Rightarrow> headers \<Rightarrow> exn + (exn + json)"
  requests_get :: "string \<Rightarrow> headers \<Rightarrow> exn + (exn + json)"
  repr_container :: "json \<Rightarrow> string"

definition crawl_payload :: "string \<Rightarrow> string \<Rightarrow> json" where
  "crawl_payload url query =
     JObj [(''url'', JStr url),
           (''sitemap'', JStr ''include''),
           (''crawlEntireDomain'', JBool True),
           (''prompt'', JStr query),
           (''scrapeOptions'',
              JObj [(''onlyMainContent'', JBool True),
                    (''maxAge'', JInt 172800000),
                    (''parsers'', JArr [JStr ''pdf'']),
                    (''formats'', JArr [JStr ''markdown''])])]"

text \<open>
  Line 72-75: the \<open>f\<close> prefix is on the key, the value is a plain literal.
  Line 85-87: the value is an f-string.
\<close>

definition submit_headers :: "crawl_env \<Rightarrow> headers" where
  "submit_headers env =
     [(''Authorization'', ''Bearer {FIRECRAWL_API_KEY}''),
      (''Content-Type'', ''application/json'')]"

definition result_header :: "crawl_env \<Rightarrow> headers" where
  "result_header env = [(''Authorization'', ''Bearer '' @ format_env (FIRECRAWL_API_KEY env))]"

text \<open>The body of the \<open>try\<close> block: the value returned or the exception raised, and the requests issued.\<close>

definition crawl_try :: "crawl_env \<Rightarrow> string \<Rightarrow> string \<Rightarrow> (exn + json) \<times> request list" where
  "crawl_try env url query =
     (let base_url = ''https://api.firecrawl.dev/v2/crawl'';
          payload = crawl_payload url query;
          hdrs = submit_headers env;
          sent1 = [POST base_url payload hdrs]
      in case requests_post env base_url payload hdrs of
           Inl e \<Rightarrow> (Inl e, sent1)
         | Inr response \<Rightarrow>
       (case response of
           Inl e \<Rightarrow> (Inl e, sent1)
         | Inr response_json \<Rightarrow>
       (case py_get response_json ''id'' of
           Inl e \<Rightarrow> (Inl e, sent1)
         | Inr job_id \<Rightarrow>
       (let result_base_url = ''https://api.firecrawl.dev/v2/crawl/'' @
                                py_format (repr_container env) job_id;
            rh = result_header env;
            sent2 = sent1 @ [GET result_base_url rh]
        in case requests_get env result_base_url rh of
             Inl e \<Rightarrow> (Inl e, sent2)
           | Inr final_respnse \<Rightarrow>
         (case final_respnse of
             Inl e \<Rightarrow> (Inl e, sent2)
           | Inr final_json \<Rightarrow>
         (case py_get final_json ''status'' of
             Inl e \<Rightarrow> (Inl e, sent2)
           | Inr _ \<Rightarrow> (Inr final_json, sent2)))))))"

text \<open>\<open>except Exception as e: return {"error": str(e)}\<close>.\<close>

definition crawl_website :: "crawl_env \<Rightarrow> string \<Rightarrow> string \<Rightarrow> (exn + json) \<times> request list" where
  "crawl_website env url query =
     (case crawl_try env url query of
        (Inl e, sent) \<Rightarrow> (Inr (JObj [(''error'', JStr (str_exn e))]), sent)
      | (Inr v, sent) \<Rightarrow> (Inr v, sent))"

text \<open>The value of the \<open>Authorization\<close> header of a request, if it has one.\<close>

fun request_headers :: "request \<Rightarrow> headers" where
  "request_headers (POST _ _ h) = h"
| "request_headers (GET _ h) = h"

definition authorization :: "request \<Rightarrow> string option" where
  "authorization r = map_of (request_headers r) ''Authorization''"

text \<open>An environment for concrete runs: the service is unreachable, or answers with a job.\<close>

definition unreachable_env :: crawl_env where
  "unreachable_env =
     \<lparr>FIRECRAWL_API_KEY = Some ''fc-123'',
      requests_post = (\<lambda>_ _ _. Inl (RequestException ''Connection refused'')),
      requests_get = (\<lambda>_ _. Inl (RequestException ''Connection refused'')),
      repr_container = (\<lambda>_. '''')\<rparr>"

definition answering_env :: crawl_env where
  "answering_env =
     \<lparr>FIRECRAWL_API_KEY = Some ''fc-123'',
      requests_post = (\<lambda>_ _ _. Inr (Inr (JObj [(''success'', JBool True), (''id'', JStr ''job7'')]))),
      requests_get = (\<lambda>_ _. Inr (Inr (JObj [(''status'', JStr ''scraping'')]))),
      repr_container = (\<lambda>_. '''')\<rparr>"


section \<open>Python string operations used by the ingestion stage\<close>

text \<open>\<open>s.split(c)\<close> for a one-character separator: never empty, one more piece than separators.\<close>

fun split_on :: "char \<Rightarrow> string \<Rightarrow> string list" where
  "split_on c [] = [[]]"
| "split_on c (x # xs) =
     (if x = c then [] # split_on c xs
      else (case split_on c xs of [] \<Rightarrow> [[x]] | y # ys \<Rightarrow> (x # y) # ys))"

definition startswith :: "string \<Rightarrow> string \<Rightarrow> bool" where
  "startswith s p = (take (length p) s = p)"

definition endswith :: "string \<Rightarrow> string \<Rightarrow> bool" where
  "endswith s p = (length p \<le> length s \<and> drop (length s - length p) s = p)"

text \<open>\<open>str.lower\<close> on the 8-bit range: A-Z, and the Latin-1 capitals except the multiplication sign.\<close>

definition lower_char :: "char \<Rightarrow> char" where
  "lower_char c =
     (let n = (of_char c :: nat)
      in if (65 \<le> n \<and> n \<le> 90) \<or> (192 \<le> n \<and> n \<le> 222 \<and> n \<noteq> 215)
         then char_of (n + 32) else c)"

definition lower :: "string \<Rightarrow> string" where
  "lower s = map lower_char s"

text \<open>Whitespace as \<open>str.strip\<close> and \<open>str.split()\<close> see it, on the 8-bit range.\<close>

definition is_space :: "char \<Rightarrow> bool" where
  "is_space c =
     (let n = (of_char c :: nat)
      in (9 \<le> n \<and> n \<le> 13) \<or> (28 \<le> n \<and> n \<le> 32) \<or> n = 133 \<or> n = 160)"

definition strip :: "string \<Rightarrow> string" where
  "strip s = rev (dropWhile is_space (rev (dropWhile is_space s)))"

text \<open>\<open>s.split()\<close>: the maximal runs of non-whitespace characters.\<close>

fun split_ws :: "string \<Rightarrow> string \<Rightarrow> string list" where
  "split_ws cur [] = (if cur = [] then [] else [cur])"
| "split_ws cur (x # xs) =
     (if is_space x then (if cur = [] then split_ws [] xs else cur # split_ws [] xs)
      else split_ws (cur @ [x]) xs)"

definition py_split :: "string \<Rightarrow> string list" where
  "py_split s = split_ws [] s"

text \<open>\<open>sep.join(parts)\<close>.\<close>

fun join :: "string \<Rightarrow> string list \<Rightarrow> string" where
  "join sep [] = []"
| "join sep [p] = p"
| "join sep (p # q # ps) = p @ sep @ join sep (q # ps)"

abbreviation newline :: char where
  "newline \<equiv> CHR 0x0A"


section \<open>The workflow-state store and the services of the pipeline\<close>

text \<open>Truth value of a JSON value in a Python condition; the zero floats print as 0.0 and -0.0.\<close>

fun truthy :: "json \<Rightarrow> bool" where
  "truthy JNull = False"
| "truthy (JBool b) = b"
| "truthy (JInt i) = (i \<noteq> 0)"
| "truthy (JFloat r) = (r \<noteq> ''0.0'' \<and> r \<noteq> ''-0.0'')"
| "truthy (JStr s) = (s \<noteq> [])"
| "truthy (JArr xs) = (xs \<noteq> [])"
| "truthy (JObj kvs) = (kvs \<noteq> [])"

text \<open>\<open>v.get(k, d)\<close>.\<close>

fun py_get_default :: "json \<Rightarrow> string \<Rightarrow> json \<Rightarrow> exn + json" where
  "py_get_default (JObj kvs) k d = Inr (case map_of kvs k of None \<Rightarrow> d | Some v \<Rightarrow> v)"
| "py_get_default v k d = py_get v k"

text \<open>\<open>d[k] = v\<close> on a dict kept as an association list in insertion order.\<close>

fun dict_set :: "'k \<Rightarrow> 'v \<Rightarrow> ('k \<times> 'v) list \<Rightarrow> ('k \<times> 'v) list" where
  "dict_set k v [] = [(k, v)]"
| "dict_set k v (p # ps) = (if fst p = k then (k, v) # ps else p # dict_set k v ps)"

record content_metadata =
  json_keys :: "string list option option"
  content_length :: "nat option"
  word_count :: "nat option"
  line_count :: "nat option"
  has_content :: "bool option"

definition empty_metadata :: content_metadata where
  "empty_metadata =
     \<lparr>json_keys = None, content_length = None, word_count = None,
      line_count = None, has_content = None\<rparr>"

text \<open>
  A record of the table \<open>agent-workflow-state\<close>: one field for each attribute a
  stage writes, \<open>None\<close> when the item does not have the attribute. The key
  \<open>session_id\<close> is the key of the table. \<open>updated_at\<close> is a Unix time, or the
  request id the Research Stage writes there.
\<close>

record item =
  workflow_stage :: "string option"
  document_content :: "string option"
  content_truncated :: "bool option"
  full_content_length :: "nat option"
  original_filename :: "string option"
  file_type :: "string option"
  file_size :: "nat option"
  extraction_method :: "string option"
  extraction_success :: "bool option"
  extraction_warnings :: "string list option"
  content_metadata :: "content_metadata option"
  s3_bucket :: "string option"
  s3_key :: "string option"
  created_at :: "nat option"
  updated_at :: "(nat + string) option"
  processing_timestamp :: "string option"
  full_content_s3_location :: "string option"
  error_message :: "string option"
  analysis_result :: "json option"
  extracted_topics :: "json option"
  research_findings :: "(string \<times> json) list option"
  final_report :: "string option"

definition empty_item :: item where
  "empty_item =
     \<lparr>workflow_stage = None, document_content = None, content_truncated = None,
      full_content_length = None, original_filename = None, file_type = None,
      file_size = None, extraction_method = None, extraction_success = None,
      extraction_warnings = None, content_metadata = None, s3_bucket = None,
      s3_key = None, created_at = None, updated_at = None, processing_timestamp = None,
      full_content_s3_location = None, error_message = None, analysis_result = None,
      extracted_topics = None, research_findings = None, final_report = None\<rparr>"

text \<open>
  What the stages change: the table, the calls made to \<open>lambda_client.invoke\<close>
  (function name and payload, in order, whether or not the call then raises),
  and the objects written with \<open>s3.put_object\<close> (bucket, key, body).
\<close>

type_synonym event = "(string \<times> string) list"

record world =
  table :: "string \<rightharpoonup> item"
  invocations :: "(string \<times> event) list"
  objects :: "(string \<times> string \<times> string) list"

text \<open>
  The effect of a \<open>table.update_item(Key={'session_id': sid},
  UpdateExpression='SET ...')\<close> that does not raise: the attributes are set on
  the item, which is created if the table has none.
\<close>

definition update_item :: "string \<Rightarrow> (item \<Rightarrow> item) \<Rightarrow> world \<Rightarrow> world" where
  "update_item sid sets w =
     w\<lparr>table := (table w)(sid \<mapsto> sets (case table w sid of None \<Rightarrow> empty_item | Some it \<Rightarrow> it))\<rparr>"

definition put_item :: "string \<Rightarrow> item \<Rightarrow> world \<Rightarrow> world" where
  "put_item sid it w = w\<lparr>table := (table w)(sid \<mapsto> it)\<rparr>"

text \<open>
  The result of a handler: \<open>Response n v\<close> is \<open>{'statusCode': n, 'body': json.dumps(v)}\<close>,
  \<open>PlainResponse n s\<close> is \<open>{'statusCode': n, 'body': s}\<close>, and
  \<open>TriggerResponse n m r\<close> is the mapping \<open>trigger_next_stage\<close> of the Research
  Stage returns, with \<open>invocation_response\<close> when the invocation succeeded.
\<close>

datatype response =
    Response nat json
  | PlainResponse nat string
  | TriggerResponse nat string "nat option"

fun statusCode :: "response \<Rightarrow> nat" where
  "statusCode (Response n _) = n"
| "statusCode (PlainResponse n _) = n"
| "statusCode (TriggerResponse n _ _) = n"

text \<open>
  The services are parameters. \<open>now\<close> is \<open>int(time.time())\<close> and \<open>utcnow\<close> is
  \<open>datetime.utcnow().isoformat()\<close>. \<open>get_object\<close> reads an object's bytes.
  \<open>put_item_error\<close> is the exception \<open>table.put_item\<close> raises for a session id,
  if any. \<open>update_item_error\<close> is the exception \<open>table.update_item\<close> raises, if
  any, for a session id and the item the update would leave (a refusal of the
  request or a failure of the service); \<open>put_object_error\<close> is the exception
  \<open>s3.put_object\<close> raises for a bucket and key, if any; \<open>table.get_item\<close>
  always answers. \<open>lambda_invoke\<close> returns the \<open>StatusCode\<close> of an
  asynchronous invocation or raises. \<open>bedrock_text\<close> takes the model id, the
  token limit and the prompt, and returns the text of the first content block
  of the model's answer, or the exception raised on the way to it (by
  \<open>invoke_model\<close>, by parsing the body or by reading the block).
  \<open>tavily_post\<close> takes the request payload and returns the parsed body of the
  answer or the exception raised by the request or by parsing.
\<close>

record services =
  now :: nat
  utcnow :: string
  aws_request_id :: string
  MAX_CONTENT_SIZE :: nat
  NEXT_FUNCTION_NAME :: string
  get_object :: "string \<Rightarrow> string \<Rightarrow> exn + byte list"
  put_item_error :: "string \<Rightarrow> exn option"
  update_item_error :: "string \<Rightarrow> item \<Rightarrow> exn option"
  put_object_error :: "string \<Rightarrow> string \<Rightarrow> exn option"
  lambda_invoke :: "string \<Rightarrow> event \<Rightarrow> exn + nat"
  bedrock_text :: "string \<Rightarrow> nat \<Rightarrow> string \<Rightarrow> exn + string"
  TAVILY_API_KEY :: "string option"
  ssm_get_parameter :: "string \<Rightarrow> exn + string"
  tavily_post :: "json \<Rightarrow> exn + json"

text \<open>
  \<open>table.update_item\<close> as the handlers call it: the exception it raises, or the
  world it leaves.
\<close>

definition try_update_item ::
  "services \<Rightarrow> string \<Rightarrow> (item \<Rightarrow> item) \<Rightarrow> world \<Rightarrow> exn + world" where
  "try_update_item sv sid sets w =
     (case update_item_error sv sid
             (sets (case table w sid of None \<Rightarrow> empty_item | Some it \<Rightarrow> it)) of
        Some e \<Rightarrow> Inl e
      | None \<Rightarrow> Inr (update_item sid sets w))"

text \<open>
  boto3 turns the values of an update into DynamoDB attribute values before it
  sends the request, and raises \<open>TypeError\<close> on a Python float, wherever it is
  in the value. \<open>has_float\<close> tells whether a JSON value holds one.
\<close>

fun has_float :: "json \<Rightarrow> bool" where
  "has_float (JFloat _) = True"
| "has_float (JArr xs) = (\<exists>x \<in> set xs. has_float x)"
| "has_float (JObj kvs) = (\<exists>v \<in> snd ` set kvs. has_float v)"
| "has_float _ = False"

definition float_error :: exn where
  "float_error = TypeError ''Float types are not supported. Use Decimal types instead.''"

text \<open>
  boto3 returns every number of a stored item as a \<open>Decimal\<close>, and \<open>json.dumps\<close>
  raises \<open>TypeError\<close> on a \<open>Decimal\<close>. \<open>has_number\<close> tells whether a JSON value
  read from the table holds a number.
\<close>

fun has_number :: "json \<Rightarrow> bool" where
  "has_number (JInt _) = True"
| "has_number (JFloat _) = True"
| "has_number (JArr xs) = (\<exists>x \<in> set xs. has_number x)"
| "has_number (JObj kvs) = (\<exists>v \<in> snd ` set kvs. has_number v)"
| "has_number _ = False"

definition decimal_error :: exn where
  "decimal_error = TypeError ''Object of type Decimal is not JSON serializable''"


section \<open>The Document Ingestion Stage (lambda-layer-1/lambda\_function.py)\<close>

subsection \<open>Libraries and configuration\<close>

text \<open>
  The libraries the stage calls are parameters. A decoder returns \<open>Inl m\<close> when it
  raises \<open>UnicodeDecodeError\<close> with message \<open>m\<close>; the PDF and Word readers return
  \<open>Inl m\<close> when they raise an exception whose text is \<open>m\<close>. A PDF is the list of
  its pages, each the text \<open>extract_text\<close> returns or the text of the exception
  it raises. \<open>md5_hexdigest\<close> is \<open>hashlib.md5(content.encode('utf-8')).hexdigest()\<close>.
  \<open>type_error_text\<close> is the wording of the \<open>TypeError\<close> the interpreter raises
  for a membership test on a value that is no container, for a string
  subscript on a list or a string, and for a loop over a value that cannot be
  iterated; the argument of each is the name of the value's type.
\<close>

datatype type_fault =
    NotAContainer string
  | BadSubscript string
  | NotIterable string

record libs =
  PDF_SUPPORT :: bool
  DOCX_SUPPORT :: bool
  pdf_pages :: "byte list \<Rightarrow> string + (string + string) list"
  docx_paragraphs :: "byte list \<Rightarrow> string + string list"
  decode_utf8 :: "byte list \<Rightarrow> string + string"
  decode_utf8_sig :: "byte list \<Rightarrow> string + string"
  decode_cp1252 :: "byte list \<Rightarrow> string + string"
  decode_utf8_ignore :: "byte list \<Rightarrow> string"
  json_loads :: "string \<Rightarrow> exn + json"
  json_dumps_indent2 :: "json \<Rightarrow> string"
  md5_hexdigest :: "string \<Rightarrow> string"
  type_error_text :: "type_fault \<Rightarrow> string"

text \<open>
  Latin-1 maps every byte to the character with the same code: the decoder is
  total, and it is defined here rather than taken as a parameter.
\<close>

definition decode_latin1 :: "byte list \<Rightarrow> string" where
  "decode_latin1 bs = map (\<lambda>b. char_of (unat b)) bs"

text \<open>\<open>file_bytes.decode(encoding)\<close> for the four encodings of the text branch.\<close>

definition decode :: "libs \<Rightarrow> string \<Rightarrow> byte list \<Rightarrow> string + string" where
  "decode lb encoding bs =
     (if encoding = ''utf-8'' then decode_utf8 lb bs
      else if encoding = ''utf-8-sig'' then decode_utf8_sig lb bs
      else if encoding = ''latin-1'' then Inr (decode_latin1 bs)
      else decode_cp1252 lb bs)"

subsection \<open>Text extraction\<close>

record extraction_result =
  filename :: string
  file_extension :: string
  file_size :: nat
  extraction_method :: string
  extraction_success :: bool
  content :: string
  metadata :: content_metadata
  warnings :: "string list"

definition get_file_extension :: "string \<Rightarrow> string" where
  "get_file_extension fname =
     (if CHR ''.'' \<in> set fname then ''.'' @ last (split_on CHR ''.'' fname) else [])"

text \<open>The page loop of \<open>extract_pdf_text\<close>; \<open>page_num\<close> counts from 0.\<close>

fun pdf_text_content :: "nat \<Rightarrow> (string + string) list \<Rightarrow> string list" where
  "pdf_text_content page_num [] = []"
| "pdf_text_content page_num (page # pages) =
     (case page of
        Inr page_text \<Rightarrow>
          (if strip page_text \<noteq> []
           then [''--- Page '' @ str_nat (page_num + 1) @ '' ---'' @ [newline] @ page_text]
           else [])
      | Inl page_error \<Rightarrow>
          [''--- Page '' @ str_nat (page_num + 1) @ '' ---'' @ [newline] @
           ''[Error extracting page content]''])
     @ pdf_text_content (page_num + 1) pages"

definition extract_pdf_text :: "libs \<Rightarrow> byte list \<Rightarrow> string" where
  "extract_pdf_text lb pdf_bytes =
     (if \<not> PDF_SUPPORT lb
      then ''ERROR: PDF processing not available - PyPDF2 library not installed''
      else case pdf_pages lb pdf_bytes of
             Inl e \<Rightarrow> ''Error processing PDF: '' @ e
           | Inr pages \<Rightarrow>
               (let full_text = join [newline, newline] (pdf_text_content 0 pages)
                in if length (strip full_text) < 10
                   then ''WARNING: Extracted text is very short - PDF might be image-based or protected''
                   else full_text))"

definition extract_docx_text :: "libs \<Rightarrow> byte list \<Rightarrow> string" where
  "extract_docx_text lb docx_bytes =
     (if \<not> DOCX_SUPPORT lb
      then ''ERROR: Word document processing not available - python-docx library not installed''
      else case docx_paragraphs lb docx_bytes of
             Inl e \<Rightarrow> ''Error processing Word document: '' @ e
           | Inr paragraphs \<Rightarrow>
               (let full_text = join [newline] (filter (\<lambda>p. strip p \<noteq> []) paragraphs)
                in if length (strip full_text) < 10
                   then ''WARNING: Extracted text is very short - document might be empty''
                   else full_text))"

text \<open>
  The \<open>for encoding in [...]\<close> loop with its \<open>break\<close>: the first encoding that
  decodes, with the text; \<open>None\<close> when the loop ends without a \<open>break\<close> (the
  \<open>else\<close> clause of the loop).
\<close>

fun try_encodings :: "libs \<Rightarrow> byte list \<Rightarrow> string list \<Rightarrow> (string \<times> string) option" where
  "try_encodings lb bs [] = None"
| "try_encodings lb bs (encoding # rest) =
     (case decode lb encoding bs of
        Inr text \<Rightarrow> Some (text, encoding)
      | Inl _ \<Rightarrow> try_encodings lb bs rest)"

definition text_encodings :: "string list" where
  "text_encodings = [''utf-8'', ''utf-8-sig'', ''latin-1'', ''cp1252'']"

definition fallback_warning :: string where
  "fallback_warning = ''Used fallback encoding - some characters might be corrupted''"

text \<open>
  Lines 112-156, the \<open>if\<close>/\<open>elif\<close> chain on the extension. The only statements
  of the chain that can raise are the two of the JSON branch, before
  \<open>extraction_result\<close> is changed.
\<close>

definition extract_by_type :: "libs \<Rightarrow> byte list \<Rightarrow> extraction_result \<Rightarrow> exn + extraction_result" where
  "extract_by_type lb file_bytes r =
     (let ext = lower (file_extension r)
      in if ext = ''.pdf''
         then Inr (r\<lparr>content := extract_pdf_text lb file_bytes, extraction_method := ''PyPDF2''\<rparr>)
         else if ext \<in> set [''.docx'', ''.doc'']
         then (if ext = ''.docx''
               then Inr (r\<lparr>content := extract_docx_text lb file_bytes,
                            extraction_method := ''python-docx''\<rparr>)
               else Inr (r\<lparr>content := ''ERROR: .doc files not supported, please convert to .docx'',
                            warnings := warnings r @ [''Legacy .doc format not supported'']\<rparr>))
         else if ext \<in> set [''.txt'', ''.md'', ''.csv'']
         then (case try_encodings lb file_bytes text_encodings of
                 Some (text, encoding) \<Rightarrow>
                   Inr (r\<lparr>content := text, extraction_method := ''text_decode_'' @ encoding\<rparr>)
               | None \<Rightarrow>
                   Inr (r\<lparr>content := decode_utf8_ignore lb file_bytes,
                          extraction_method := ''text_decode_fallback'',
                          warnings := warnings r @ [fallback_warning]\<rparr>))
         else if ext \<in> set [''.json'']
         then (case decode_utf8 lb file_bytes of
                 Inl m \<Rightarrow> Inl (UnicodeDecodeError m)
               | Inr text \<Rightarrow>
                   (case json_loads lb text of
                      Inl (JSONDecodeError m) \<Rightarrow>
                        Inr (r\<lparr>content := ''ERROR: Invalid JSON file - '' @ m\<rparr>)
                    | Inl e \<Rightarrow> Inl e
                    | Inr json_content \<Rightarrow>
                        Inr (r\<lparr>content := json_dumps_indent2 lb json_content,
                               extraction_method := ''json_parse'',
                               metadata := (metadata r)\<lparr>json_keys :=
                                 Some (case json_content of
                                         JObj kvs \<Rightarrow> Some (map fst kvs)
                                       | _ \<Rightarrow> None)\<rparr>\<rparr>)))
         else (case decode_utf8 lb file_bytes of
                 Inr text \<Rightarrow>
                   Inr (r\<lparr>content := text, extraction_method := ''generic_text'',
                          warnings := warnings r @
                            [''Unsupported file type '' @ file_extension r @ '', treated as text'']\<rparr>)
               | Inl _ \<Rightarrow>
                   Inr (r\<lparr>content := decode_utf8_ignore lb file_bytes,
                          extraction_method := ''generic_text_fallback'',
                          warnings := warnings r @
                            [''Unsupported file type '' @ file_extension r @
                             '', used fallback text extraction'']\<rparr>)))"

text \<open>Lines 158-169: the success flag and the content statistics.\<close>

definition check_and_count :: "extraction_result \<Rightarrow> extraction_result" where
  "check_and_count r =
     (let r1 = (if content r \<noteq> [] \<and> \<not> startswith (content r) ''ERROR:''
                then r\<lparr>extraction_success := True\<rparr> else r);
          c = content r1
      in r1\<lparr>metadata := (metadata r1)
              \<lparr>content_length := Some (length c),
               word_count := Some (if c \<noteq> [] then length (py_split c) else 0),
               line_count := Some (if c \<noteq> [] then count_list c newline + 1 else 0),
               has_content := Some (0 < length (strip c))\<rparr>\<rparr>)"

definition extract_text_content :: "libs \<Rightarrow> byte list \<Rightarrow> string \<Rightarrow> extraction_result" where
  "extract_text_content lb file_bytes fname =
     (let extraction_result =
            \<lparr>filename = fname,
             file_extension = get_file_extension fname,
             file_size = length file_bytes,
             extraction_method = ''unknown'',
             extraction_success = False,
             content = [],
             metadata = empty_metadata,
             warnings = []\<rparr>
      in case extract_by_type lb file_bytes extraction_result of
           Inr r \<Rightarrow> check_and_count r
         | Inl e \<Rightarrow>
             extraction_result
               \<lparr>content := ''ERROR: Failed to process file - '' @ str_exn e,
                warnings := warnings extraction_result @
                  [''Unexpected error during extraction: '' @ str_exn e]\<rparr>)"

subsection \<open>Session identifiers\<close>

text \<open>\<open>unix_time\<close> is \<open>int(time.time())\<close> at the call; \<open>s[-6:]\<close> is the whole of a shorter \<open>s\<close>.\<close>

definition generate_session_id :: "libs \<Rightarrow> nat \<Rightarrow> string \<Rightarrow> string \<Rightarrow> string" where
  "generate_session_id lb unix_time fname cont =
     (let base_name = (if CHR ''.'' \<in> set fname then hd (split_on CHR ''.'' fname) else fname);
          content_hash = take 8 (md5_hexdigest lb cont);
          ts = str_nat unix_time;
          timestamp = drop (length ts - 6) ts
      in base_name @ ''_'' @ content_hash @ ''_'' @ timestamp)"

text \<open>
  The identifier as the specification words it: the filename without its
  extension (the extension being what \<open>get_file_extension\<close> finds, from the last
  dot on), the first 8 characters of the hash, the last 6 digits of the time.
\<close>

definition spec_base_name :: "string \<Rightarrow> string" where
  "spec_base_name fname = take (length fname - length (get_file_extension fname)) fname"

definition spec_session_id :: "libs \<Rightarrow> nat \<Rightarrow> string \<Rightarrow> string \<Rightarrow> string" where
  "spec_session_id lb unix_time fname cont =
     spec_base_name fname @ ''_'' @ take 8 (md5_hexdigest lb cont) @ ''_'' @
     drop (length (str_nat unix_time) - 6) (str_nat unix_time)"

subsection \<open>Storing the document and triggering the Analysis Stage\<close>

text \<open>
  \<open>store_document_data\<close>: the only statement of its \<open>try\<close> block that can raise
  is \<open>put_item\<close>; the result tells whether the item was stored.
\<close>

definition store_document_data ::
  "services \<Rightarrow> string \<Rightarrow> extraction_result \<Rightarrow> string \<Rightarrow> string \<Rightarrow> world \<Rightarrow> bool \<times> world" where
  "store_document_data sv sid er bkt ky w =
     (let cont = content er;
          stored_content = (if length cont > MAX_CONTENT_SIZE sv
                            then take (MAX_CONTENT_SIZE sv) cont else cont);
          truncated = (length cont > MAX_CONTENT_SIZE sv);
          it = empty_item
                 \<lparr>workflow_stage := Some ''document_processed'',
                  document_content := Some stored_content,
                  content_truncated := Some truncated,
                  full_content_length := Some (length cont),
                  original_filename := Some (filename er),
                  file_type := Some (file_extension er),
                  item.file_size := Some (file_size er),
                  item.extraction_method := Some (extraction_method er),
                  item.extraction_success := Some (extraction_success er),
                  extraction_warnings := Some (warnings er),
                  content_metadata := Some (metadata er),
                  s3_bucket := Some bkt,
                  s3_key := Some ky,
                  created_at := Some (now sv),
                  updated_at := Some (Inl (now sv)),
                  processing_timestamp := Some (utcnow sv)\<rparr>;
          it' = (if truncated
                 then it\<lparr>full_content_s3_location := Some (''s3://'' @ bkt @ ''/'' @ ky)\<rparr>
                 else it)
      in case put_item_error sv sid of
           Some e \<Rightarrow> (False, w)
         | None \<Rightarrow> (True, put_item sid it' w))"

text \<open>\<open>_update_error_state\<close>: an exception of the update is caught and printed.\<close>

definition update_error_state :: "services \<Rightarrow> string \<Rightarrow> string \<Rightarrow> world \<Rightarrow> world" where
  "update_error_state sv sid error_msg w =
     (case try_update_item sv sid
             (\<lambda>it. it\<lparr>workflow_stage := Some ''error_document_processing'',
                      error_message := Some error_msg,
                      updated_at := Some (Inl (now sv))\<rparr>) w of
        Inr w' \<Rightarrow> w'
      | Inl e \<Rightarrow> w)"

definition trigger_next_stage :: "services \<Rightarrow> string \<Rightarrow> world \<Rightarrow> bool \<times> world" where
  "trigger_next_stage sv sid w =
     (let payload = [(''session_id'', sid),
                     (''trigger_source'', ''document_ingestion''),
                     (''timestamp'', utcnow sv)];
          w1 = w\<lparr>invocations := invocations w @ [(NEXT_FUNCTION_NAME sv, payload)]\<rparr>
      in case lambda_invoke sv (NEXT_FUNCTION_NAME sv) payload of
           Inr _ \<Rightarrow> (True, w1)
         | Inl e \<Rightarrow>
             (False, update_error_state sv sid
                       (''Failed to trigger analysis stage: '' @ str_exn e) w1))"

subsection \<open>The handler\<close>

text \<open>
  A notification record: its \<open>eventSource\<close>, if it has one, and the bucket and
  key under \<open>record['s3']\<close>, or the key whose lookup raises \<open>KeyError\<close>. An event
  has \<open>Records\<close>, or \<open>bucket\<close> and \<open>key\<close>, or neither.
\<close>

record s3_record =
  eventSource :: "string option"
  s3_object :: "string + (string \<times> string)"

record ingestion_event =
  Records :: "s3_record list option"
  bucket :: "string option"
  key :: "string option"

definition document_extensions :: "string list" where
  "document_extensions = [''.pdf'', ''.txt'', ''.docx'', ''.doc'', ''.md'', ''.json'', ''.csv'']"

text \<open>
  The \<open>for record in event['Records']\<close> loop. The result is the exception that
  ended the loop, if any, and the world the loop leaves.
\<close>

fun process_records ::
  "libs \<Rightarrow> services \<Rightarrow> s3_record list \<Rightarrow> world \<Rightarrow> exn option \<times> world" where
  "process_records lb sv [] w = (None, w)"
| "process_records lb sv (r # rest) w =
     (if eventSource r = Some ''aws:s3''
      then (case s3_object r of
              Inl k \<Rightarrow> (Some (KeyError k), w)
            | Inr (bkt, ky) \<Rightarrow>
                if \<not> list_ex (\<lambda>ext. endswith (lower ky) ext) document_extensions
                then process_records lb sv rest w
                else (case get_object sv bkt ky of
                        Inl e \<Rightarrow> process_records lb sv rest w
                      | Inr file_bytes \<Rightarrow>
                          (let er = extract_text_content lb file_bytes ky
                           in if \<not> extraction_success er
                              then process_records lb sv rest w
                              else (let sid = generate_session_id lb (now sv) ky (content er)
                                    in case store_document_data sv sid er bkt ky w of
                                         (True, w1) \<Rightarrow>
                                           process_records lb sv rest
                                             (snd (trigger_next_stage sv sid w1))
                                       | (False, w1) \<Rightarrow> process_records lb sv rest w1))))
      else process_records lb sv rest w)"

text \<open>
  Direct invocation, lines 328-353: there is no test of \<open>extraction_success\<close>
  between the extraction and the storing.
\<close>

definition process_direct ::
  "libs \<Rightarrow> services \<Rightarrow> string \<Rightarrow> string \<Rightarrow> world \<Rightarrow> (exn + response option) \<times> world" where
  "process_direct lb sv bkt ky w =
     (case get_object sv bkt ky of
        Inl e \<Rightarrow> (Inl e, w)
      | Inr file_bytes \<Rightarrow>
          (let er = extract_text_content lb file_bytes ky;
               sid = generate_session_id lb (now sv) ky (content er)
           in case store_document_data sv sid er bkt ky w of
                (True, w1) \<Rightarrow>
                  (Inr (Some (Response 200
                     (JObj [(''message'', JStr ''Document processed successfully''),
                            (''session_id'', JStr sid),
                            (''extraction_success'', JBool (extraction_success er)),
                            (''content_length'', JInt (int (length (content er)))),
                            (''warnings'', JArr (map JStr (warnings er)))]))),
                   snd (trigger_next_stage sv sid w1))
              | (False, w1) \<Rightarrow> (Inr None, w1)))"

definition ingestion_lambda_handler ::
  "libs \<Rightarrow> services \<Rightarrow> ingestion_event \<Rightarrow> world \<Rightarrow> response \<times> world" where
  "ingestion_lambda_handler lb sv ev w =
     (let completed = Response 200 (JObj [(''message'', JStr ''Document ingestion completed'')]);
          failed = (\<lambda>e. Response 500 (JObj [(''error'', JStr (str_exn e))]))
      in case Records ev of
           Some records \<Rightarrow>
             (case process_records lb sv records w of
                (Some e, w') \<Rightarrow> (failed e, w')
              | (None, w') \<Rightarrow> (completed, w'))
         | None \<Rightarrow>
             (case (bucket ev, key ev) of
                (Some bkt, Some ky) \<Rightarrow>
                  (case process_direct lb sv bkt ky w of
                     (Inl e, w') \<Rightarrow> (failed e, w')
                   | (Inr (Some resp), w') \<Rightarrow> (resp, w')
                   | (Inr None, w') \<Rightarrow> (completed, w'))
              | _ \<Rightarrow> (Response 400 (JObj [(''error'', JStr ''Invalid event format'')]), w)))"

text \<open>
  A notification record names an object that is fetched and whose extraction
  did not succeed.
\<close>

definition extraction_fails :: "libs \<Rightarrow> services \<Rightarrow> s3_record \<Rightarrow> bool" where
  "extraction_fails lb sv r =
     (case s3_object r of
        Inl _ \<Rightarrow> False
      | Inr (bkt, ky) \<Rightarrow>
          (case get_object sv bkt ky of
             Inl _ \<Rightarrow> False
           | Inr file_bytes \<Rightarrow> \<not> extraction_success (extract_text_content lb file_bytes ky)))"


section \<open>The Analysis Stage (lambda-layer-2/analysis\_lambda.py)\<close>

definition analysis_prompt :: "string \<Rightarrow> string" where
  "analysis_prompt doc =
     join [newline]
       ['''',
        ''    Analyze the following document and extract:'',
        ''    1. Key topics (max 5)'',
        ''    2. Important entities (people, organizations, locations)'',
        ''    3. Main themes'',
        ''    4. Research questions that provide valuable context'',
        ''    '',
        ''    Document:'',
        ''    '' @ doc,
        ''    '',
        ''    Respond in JSON format with keys: topics, entities, themes, research_questions'',
        ''    '']"

text \<open>\<open>update_workflow_error\<close> has no \<open>try\<close>: an exception of the update is raised.\<close>

definition update_workflow_error ::
  "services \<Rightarrow> string \<Rightarrow> string \<Rightarrow> world \<Rightarrow> exn + world" where
  "update_workflow_error sv sid error_msg w =
     try_update_item sv sid
       (\<lambda>it. it\<lparr>workflow_stage := Some ''error'',
                error_message := Some error_msg,
                updated_at := Some (Inl (now sv))\<rparr>) w"

text \<open>\<open>invoke_bedrock_model\<close> of this stage, with its default model and token limit.\<close>

definition analysis_invoke_bedrock_model :: "services \<Rightarrow> string \<Rightarrow> exn + string" where
  "analysis_invoke_bedrock_model sv prompt =
     bedrock_text sv ''anthropic.claude-3-sonnet-20240229-v1:0'' 4000 prompt"

text \<open>Lines 52-55: the model call and \<open>json.loads\<close> of its text, inside one \<open>try\<close>.\<close>

definition analyze :: "libs \<Rightarrow> services \<Rightarrow> string \<Rightarrow> exn + json" where
  "analyze lb sv prompt =
     (case analysis_invoke_bedrock_model sv prompt of
        Inl e \<Rightarrow> Inl e
      | Inr response_text \<Rightarrow> json_loads lb response_text)"

definition missing_session_id :: response where
  "missing_session_id = Response 400 (JObj [(''error'', JStr ''Missing session_id'')])"

definition session_not_found :: response where
  "session_not_found = Response 404 (JObj [(''error'', JStr ''Session not found'')])"

definition no_document_content :: response where
  "no_document_content = Response 400 (JObj [(''error'', JStr ''No document content found'')])"

text \<open>
  The handler returns a result or raises, and leaves a world. Outside a \<open>try\<close>,
  \<open>analysis_result.get('topics', [])\<close> at line 70 raises when the model's answer
  is JSON but no object, and the update of lines 64-73 raises when the answer
  holds a float or the table refuses the update; both leave the table as it
  was and end the handler before the invocation. \<open>update_workflow_error\<close> is
  called inside the two \<open>except\<close> clauses, and an exception it raises leaves
  the handler.
\<close>

definition analysis_lambda_handler ::
  "libs \<Rightarrow> services \<Rightarrow> event \<Rightarrow> world \<Rightarrow> (exn + response) \<times> world" where
  "analysis_lambda_handler lb sv ev w =
     (case map_of ev ''session_id'' of
        None \<Rightarrow> (Inr missing_session_id, w)
      | Some sid \<Rightarrow>
          if sid = [] then (Inr missing_session_id, w)
          else (case table w sid of
                  None \<Rightarrow> (Inr session_not_found, w)
                | Some it \<Rightarrow>
                    (let doc = (case document_content it of None \<Rightarrow> [] | Some c \<Rightarrow> c)
                     in if doc = [] then (Inr no_document_content, w)
                        else (case analyze lb sv (analysis_prompt doc) of
                                Inl e \<Rightarrow>
                                  (case update_workflow_error sv sid
                                          (''Bedrock analysis failed: '' @ str_exn e) w of
                                     Inl e' \<Rightarrow> (Inl e', w)
                                   | Inr w' \<Rightarrow>
                                       (Inr (Response 500 (JObj [(''error'', JStr (str_exn e))])),
                                        w'))
                              | Inr result \<Rightarrow>
                                  (case py_get_default result ''topics'' (JArr []) of
                                     Inl e \<Rightarrow> (Inl e, w)
                                   | Inr topics \<Rightarrow>
                                       if has_float result \<or> has_float topics
                                       then (Inl float_error, w)
                                       else
                                       (case try_update_item sv sid
                                               (\<lambda>it. it\<lparr>workflow_stage := Some ''analysis_complete'',
                                                        analysis_result := Some result,
                                                        extracted_topics := Some topics,
                                                        updated_at := Some (Inl (now sv))\<rparr>) w of
                                          Inl e \<Rightarrow> (Inl e, w)
                                        | Inr w1 \<Rightarrow>
                                       (let payload = [(''session_id'', sid)];
                                            w2 = w1\<lparr>invocations :=
                                                     invocations w1 @ [(''research-agent'', payload)]\<rparr>;
                                            done = Response 200
                                                     (JObj [(''message'', JStr ''Analysis complete''),
                                                            (''session_id'', JStr sid)])
                                        in case lambda_invoke sv ''research-agent'' payload of
                                             Inr _ \<Rightarrow> (Inr done, w2)
                                           | Inl e \<Rightarrow>
                                               (case update_workflow_error sv sid
                                                       (''Failed to trigger research stage: '' @
                                                        str_exn e) w2 of
                                                  Inl e' \<Rightarrow> (Inl e', w2)
                                                | Inr w3 \<Rightarrow> (Inr done, w3)))))))))"


section \<open>The Research Stage (lambda-layer-3/research\_lambda.py)\<close>

subsection \<open>Web search\<close>

definition get_tavily_api_key :: "services \<Rightarrow> string" where
  "get_tavily_api_key sv =
     (case TAVILY_API_KEY sv of
        Some api_key \<Rightarrow>
          if api_key \<noteq> [] then api_key
          else (case ssm_get_parameter sv ''/lambda/tavily/api-key'' of
                  Inr v \<Rightarrow> v | Inl e \<Rightarrow> [])
      | None \<Rightarrow>
          (case ssm_get_parameter sv ''/lambda/tavily/api-key'' of
             Inr v \<Rightarrow> v | Inl e \<Rightarrow> []))"

text \<open>\<open>for x in v\<close>: the elements of a list, the characters of a string, the keys of a dict.\<close>

fun iterate :: "libs \<Rightarrow> json \<Rightarrow> exn + json list" where
  "iterate lb (JArr xs) = Inr xs"
| "iterate lb (JStr s) = Inr (map (\<lambda>c. JStr [c]) s)"
| "iterate lb (JObj kvs) = Inr (map (\<lambda>kv. JStr (fst kv)) kvs)"
| "iterate lb v = Inl (TypeError (type_error_text lb (NotIterable (type_name v))))"

text \<open>\<open>p in s\<close> for two strings: \<open>p\<close> occurs in \<open>s\<close>.\<close>

fun contains :: "string \<Rightarrow> string \<Rightarrow> bool" where
  "contains [] p = (p = [])"
| "contains (x # xs) p = (startswith (x # xs) p \<or> contains xs p)"

text \<open>One entry of the result list, lines 114-120; \<open>.get\<close> raises on an entry that is no object.\<close>

definition format_result :: "json \<Rightarrow> exn + json" where
  "format_result r =
     (case py_get_default r ''title'' (JStr []) of Inl e \<Rightarrow> Inl e | Inr title \<Rightarrow>
      case py_get_default r ''url'' (JStr []) of Inl e \<Rightarrow> Inl e | Inr url \<Rightarrow>
      case py_get_default r ''content'' (JStr []) of Inl e \<Rightarrow> Inl e | Inr cont \<Rightarrow>
      case py_get_default r ''score'' (JInt 0) of Inl e \<Rightarrow> Inl e | Inr score \<Rightarrow>
      case py_get_default r ''published_date'' (JStr []) of Inl e \<Rightarrow> Inl e | Inr published \<Rightarrow>
        Inr (JObj [(''title'', title), (''url'', url), (''content'', cont),
                   (''score'', score), (''published_date'', published)]))"

fun format_results :: "json list \<Rightarrow> exn + json list" where
  "format_results [] = Inr []"
| "format_results (r # rs) =
     (case format_result r of
        Inl e \<Rightarrow> Inl e
      | Inr x \<Rightarrow> (case format_results rs of Inl e \<Rightarrow> Inl e | Inr xs \<Rightarrow> Inr (x # xs)))"

text \<open>
  Lines 108-133, for the parsed body \<open>data\<close>. A body that is no JSON object
  raises: a list or a string at \<open>data["results"]\<close> when the membership test of
  line 112 is true and at \<open>data.get\<close> when it is false, any other value at the
  membership test itself.
\<close>

definition search_results :: "libs \<Rightarrow> json \<Rightarrow> exn + json" where
  "search_results lb data =
     (case data of
        JObj kvs \<Rightarrow>
          (case (case map_of kvs ''results'' of
                   None \<Rightarrow> Inr []
                 | Some rs \<Rightarrow>
                     (case iterate lb rs of Inl e \<Rightarrow> Inl e | Inr xs \<Rightarrow> format_results xs)) of
             Inl e \<Rightarrow> Inl e
           | Inr results \<Rightarrow>
               (let tavily_answer = (case map_of kvs ''answer'' of None \<Rightarrow> JStr [] | Some a \<Rightarrow> a)
                in if truthy tavily_answer
                   then Inr (JArr (JObj [(''title'', JStr ''Tavily AI Summary''),
                                         (''url'', JStr ''tavily://answer''),
                                         (''content'', tavily_answer),
                                         (''score'', JFloat ''1.0''),
                                         (''published_date'', JStr [])] # results))
                   else Inr (JArr results)))
      | JArr xs \<Rightarrow>
          if JStr ''results'' \<in> set xs
          then Inl (TypeError (type_error_text lb (BadSubscript ''list'')))
          else py_get data ''answer''
      | JStr s \<Rightarrow>
          if contains s ''results''
          then Inl (TypeError (type_error_text lb (BadSubscript ''str'')))
          else py_get data ''answer''
      | _ \<Rightarrow> Inl (TypeError (type_error_text lb (NotAContainer (type_name data)))))"

definition perform_tavily_search :: "libs \<Rightarrow> services \<Rightarrow> string \<Rightarrow> exn + json" where
  "perform_tavily_search lb sv query =
     (let api_key = get_tavily_api_key sv
      in if api_key = [] then Inl (ValueError ''Tavily API key not found'')
         else (let payload = JObj [(''api_key'', JStr api_key),
                                   (''query'', JStr query),
                                   (''search_depth'', JStr ''advanced''),
                                   (''include_answer'', JBool True),
                                   (''include_raw_content'', JBool False),
                                   (''max_results'', JInt 5),
                                   (''include_domains'', JArr []),
                                   (''exclude_domains'', JArr [])]
               in case (case tavily_post sv payload of
                          Inl e \<Rightarrow> Inl e
                        | Inr data \<Rightarrow> search_results lb data) of
                    Inl (RequestException m) \<Rightarrow>
                      Inl (OtherError (''Tavily API request failed: '' @ m))
                  | Inl (JSONDecodeError m) \<Rightarrow>
                      Inl (OtherError (''Failed to parse Tavily API response: '' @ m))
                  | Inl e \<Rightarrow> Inl e
                  | Inr results \<Rightarrow> Inr results))"

subsection \<open>Summarising one question\<close>

definition quoted :: "string \<Rightarrow> string" where
  "quoted s = [CHR 0x22] @ s @ [CHR 0x22]"

definition research_prompt :: "string \<Rightarrow> string \<Rightarrow> string" where
  "research_prompt question results_text =
     join [newline]
       ['''',
        ''            You are a research assistant. Summarize the following search results for the question:'',
        ''            '',
        ''            Question: '' @ question,
        ''            Results: '' @ results_text,
        ''            '',
        ''            Provide a factual, concise answer in JSON format:'',
        ''            {'',
        ''              '' @ quoted ''summary'' @ '': '' @ quoted ''...'' @ '','',
        ''              '' @ quoted ''reliability_score'' @ '': '' @ quoted ''High/Medium/Low'' @ '','',
        ''              '' @ quoted ''sources'' @ '': ['' @ quoted ''url1'' @ '', '' @ quoted ''url2'' @ ''],'',
        ''              '' @ quoted ''key_findings'' @ '': ['' @ quoted ''finding1'' @ '', '' @
                            quoted ''finding2'' @ '']'',
        ''            }'',
        ''            '']"

text \<open>Lines 195-202: the finding put in place of a model answer that is no JSON.\<close>

definition parse_fallback :: json where
  "parse_fallback =
     JObj [(''summary'', JStr ''Error parsing model response''),
           (''reliability_score'', JStr ''Low''),
           (''sources'', JArr []),
           (''key_findings'', JArr [])]"

text \<open>
  \<open>invoke_bedrock_model\<close> of this stage (token limit 1500, temperature 0.1): a
  \<open>JSONDecodeError\<close>, of the body or of the text, gives the fallback; any other
  exception is raised again with a prefix.
\<close>

definition research_invoke_bedrock_model :: "libs \<Rightarrow> services \<Rightarrow> string \<Rightarrow> string \<Rightarrow> exn + json" where
  "research_invoke_bedrock_model lb sv prompt model_id =
     (case (case bedrock_text sv model_id 1500 prompt of
              Inl e \<Rightarrow> Inl e
            | Inr text_block \<Rightarrow> json_loads lb text_block) of
        Inl (JSONDecodeError m) \<Rightarrow> Inr parse_fallback
      | Inl e \<Rightarrow> Inl (OtherError (''Bedrock model invocation failed: '' @ str_exn e))
      | Inr v \<Rightarrow> Inr v)"

text \<open>The body of the \<open>try\<close> block of the question loop, lines 23-43.\<close>

definition process_question :: "libs \<Rightarrow> services \<Rightarrow> string \<Rightarrow> exn + json" where
  "process_question lb sv question =
     (case perform_tavily_search lb sv question of
        Inl e \<Rightarrow> Inl e
      | Inr raw_results \<Rightarrow>
          research_invoke_bedrock_model lb sv
            (research_prompt question (json_dumps_indent2 lb raw_results))
            ''anthropic.claude-3-sonnet-20240229-v1:0'')"

text \<open>Lines 45-52: the finding put in place of a question whose processing raised.\<close>

definition error_finding :: "exn \<Rightarrow> json" where
  "error_finding e =
     JObj [(''summary'', JStr (''Error processing question: '' @ str_exn e)),
           (''reliability_score'', JStr ''Low''),
           (''sources'', JArr []),
           (''key_findings'', JArr [])]"

text \<open>The \<open>for question in research_questions\<close> loop; \<open>findings\<close> is the dict built so far.\<close>

fun research_loop ::
  "libs \<Rightarrow> services \<Rightarrow> string list \<Rightarrow> (string \<times> json) list \<Rightarrow> (string \<times> json) list" where
  "research_loop lb sv [] findings = findings"
| "research_loop lb sv (question # rest) findings =
     research_loop lb sv rest
       (dict_set question
          (case process_question lb sv question of
             Inr validated \<Rightarrow> validated
           | Inl e \<Rightarrow> error_finding e)
          findings)"

subsection \<open>The handler\<close>

definition research_trigger_next_stage ::
  "services \<Rightarrow> string \<Rightarrow> string \<Rightarrow> world \<Rightarrow> response \<times> world" where
  "research_trigger_next_stage sv sid next_function w =
     (let payload = [(''session_id'', sid), (''previous_stage'', ''research_complete'')];
          w1 = w\<lparr>invocations := invocations w @ [(next_function, payload)]\<rparr>
      in case lambda_invoke sv next_function payload of
           Inr status \<Rightarrow>
             (TriggerResponse 200 (''Successfully triggered '' @ next_function) (Some status), w1)
         | Inl e \<Rightarrow>
             (TriggerResponse 500
                (''Failed to trigger '' @ next_function @ '': '' @ str_exn e) None, w1))"

text \<open>The strings of a list of JSON values, when all of them are strings.\<close>

fun strings_of :: "json list \<Rightarrow> string list option" where
  "strings_of [] = Some []"
| "strings_of (JStr s # xs) = map_option ((#) s) (strings_of xs)"
| "strings_of (_ # xs) = None"

text \<open>
  The handler returns a result or raises, and leaves a world. The questions are
  strings, as the specification's data model has them: a truthy
  \<open>research_questions\<close> that can be iterated and has an element that is no
  string is outside this model, and the result is then \<open>None\<close>. The update of
  lines 55-63 is outside any \<open>try\<close>: it raises when a finding holds a float or
  the table refuses the update, and then nothing is written and line 66 is not
  reached.
\<close>

definition research_lambda_handler ::
  "libs \<Rightarrow> services \<Rightarrow> event \<Rightarrow> world \<Rightarrow> ((exn + response) \<times> world) option" where
  "research_lambda_handler lb sv ev w =
     (case map_of ev ''session_id'' of
        None \<Rightarrow> Some (Inl (KeyError ''session_id''), w)
      | Some sid \<Rightarrow>
          (case table w sid of
             None \<Rightarrow> Some (Inl (KeyError ''Item''), w)
           | Some it \<Rightarrow>
               (case py_get_default (case analysis_result it of None \<Rightarrow> JObj [] | Some a \<Rightarrow> a)
                       ''research_questions'' (JArr []) of
                  Inl e \<Rightarrow> Some (Inl e, w)
                | Inr research_questions \<Rightarrow>
                    if \<not> truthy research_questions
                    then Some (Inr (PlainResponse 400 ''No research questions found''), w)
                    else (case iterate lb research_questions of
                            Inl e \<Rightarrow> Some (Inl e, w)
                          | Inr elems \<Rightarrow>
                              (case strings_of elems of
                                 None \<Rightarrow> None
                               | Some questions \<Rightarrow>
                                   (let findings = research_loop lb sv questions []
                                    in if has_float (JObj findings)
                                       then Some (Inl float_error, w)
                                       else
                                       (case try_update_item sv sid
                                               (\<lambda>it. it\<lparr>workflow_stage := Some ''research_complete'',
                                                        research_findings := Some findings,
                                                        updated_at := Some (Inr (aws_request_id sv))\<rparr>) w of
                                          Inl e \<Rightarrow> Some (Inl e, w)
                                        | Inr w1 \<Rightarrow>
                                            (case research_trigger_next_stage sv sid
                                                    ''report-generation-agent'' w1 of
                                               (resp, w2) \<Rightarrow> Some (Inr resp, w2)))))))))"


section \<open>The Report Generation Stage (lambda-layer-4/report\_lambda.py)\<close>

definition report_prompt :: "string \<Rightarrow> string \<Rightarrow> string \<Rightarrow> string" where
  "report_prompt doc analysis_text findings_text =
     join [newline]
       ['''',
        ''    You are a professional research report writer.'',
        ''    '',
        ''    Create a detailed research report using the following information:'',
        ''    '',
        ''    - Original Document:'',
        ''    '' @ take 1000 doc @ ''...'',
        ''    '',
        ''    - Document Analysis:'',
        ''    '' @ analysis_text,
        ''    '',
        ''    - Research Findings:'',
        ''    '' @ findings_text,
        ''    '',
        ''    Structure the report with:'',
        ''    1. Executive Summary'',
        ''    2. Key Findings'',
        ''    3. Detailed Analysis'',
        ''    4. Supporting Research'',
        ''    5. Conclusions and Recommendations'',
        ''    '',
        ''    Write in clear, professional English.'',
        ''    '']"

text \<open>\<open>invoke_bedrock_model\<close> of this stage (token limit 4000).\<close>

definition report_invoke_bedrock_model :: "services \<Rightarrow> string \<Rightarrow> string \<Rightarrow> exn + string" where
  "report_invoke_bedrock_model sv prompt model_id = bedrock_text sv model_id 4000 prompt"

definition report_bucket_name :: string where
  "report_bucket_name = ''learningawswithdadiyaharshwappnet''"

text \<open>
  \<open>event['session_id']\<close> and \<open>response["Item"]\<close> raise \<open>KeyError\<close> when the key is
  missing; the fields read with \<open>item.get\<close> default to empty values and are not
  tested. The two \<open>json.dumps\<close> of lines 30 and 33 raise when the analysis or
  the findings, as read from the table, hold a number. No exception of the
  model call, of \<open>put_object\<close> or of the update is caught.
\<close>

definition report_lambda_handler ::
  "libs \<Rightarrow> services \<Rightarrow> event \<Rightarrow> world \<Rightarrow> (exn + response) \<times> world" where
  "report_lambda_handler lb sv ev w =
     (case map_of ev ''session_id'' of
        None \<Rightarrow> (Inl (KeyError ''session_id''), w)
      | Some sid \<Rightarrow>
          (case table w sid of
             None \<Rightarrow> (Inl (KeyError ''Item''), w)
           | Some it \<Rightarrow>
               (let analysis = (case analysis_result it of None \<Rightarrow> JObj [] | Some a \<Rightarrow> a);
                    findings = (case research_findings it of None \<Rightarrow> [] | Some f \<Rightarrow> f);
                    doc = (case document_content it of None \<Rightarrow> [] | Some c \<Rightarrow> c)
                in if has_number analysis \<or> has_number (JObj findings)
                   then (Inl decimal_error, w)
                   else
                   (let prompt = report_prompt doc (json_dumps_indent2 lb analysis)
                                   (json_dumps_indent2 lb (JObj findings))
                    in case report_invoke_bedrock_model sv prompt
                              ''anthropic.claude-3-haiku-20240307-v1:0'' of
                         Inl e \<Rightarrow> (Inl e, w)
                       | Inr report_text \<Rightarrow>
                           (let report_key = ''reports/'' @ sid @ ''_report_'' @ str_nat (now sv) @
                                             ''.txt''
                            in case put_object_error sv report_bucket_name report_key of
                                 Some e \<Rightarrow> (Inl e, w)
                               | None \<Rightarrow>
                                   (let w1 = w\<lparr>objects := objects w @
                                              [(report_bucket_name, report_key, report_text)]\<rparr>
                                    in case try_update_item sv sid
                                              (\<lambda>it. it\<lparr>workflow_stage := Some ''report_generated'',
                                                       final_report := Some report_text,
                                                       updated_at := Some (Inl (now sv))\<rparr>) w1 of
                                         Inl e \<Rightarrow> (Inl e, w1)
                                       | Inr w2 \<Rightarrow>
                                           (Inr (Response 200
                                              (JObj [(''message'', JStr ''Report generated successfully''),
                                                     (''session_id'', JStr sid),
                                                     (''report_s3_url'',
                                                        JStr (''s3://'' @ report_bucket_name @ ''/'' @
                                                              report_key))])),
                                            w2)))))))"


section \<open>The order of the workflow stages\<close>

text \<open>
  The canonical order \<open>document_processed < analysis_complete < research_complete
  < report_generated\<close>, and the two error states beside it.
\<close>

definition stage_rank :: "string \<Rightarrow> nat option" where
  "stage_rank s =
     (if s = ''document_processed'' then Some 0
      else if s = ''analysis_complete'' then Some 1
      else if s = ''research_complete'' then Some 2
      else if s = ''report_generated'' then Some 3
      else None)"

definition is_error_stage :: "string \<Rightarrow> bool" where
  "is_error_stage s = (s = ''error_document_processing'' \<or> s = ''error'')"

text \<open>A change from \<open>old\<close> to \<open>new\<close> moves backward in the order, or leaves an error state.\<close>

definition regresses :: "string \<Rightarrow> string \<Rightarrow> bool" where
  "regresses old new =
     ((is_error_stage old \<and> \<not> is_error_stage new) \<or>
      (case (stage_rank old, stage_rank new) of
         (Some a, Some b) \<Rightarrow> b < a
       | _ \<Rightarrow> False))"

datatype stage = Analysis | Research | Report

text \<open>The world a stage execution leaves, whether it returns or raises.\<close>

fun run_stage :: "libs \<Rightarrow> services \<Rightarrow> stage \<Rightarrow> event \<Rightarrow> world \<Rightarrow> world option" where
  "run_stage lb sv Analysis ev w = Some (snd (analysis_lambda_handler lb sv ev w))"
| "run_stage lb sv Research ev w = map_option snd (research_lambda_handler lb sv ev w)"
| "run_stage lb sv Report ev w = Some (snd (report_lambda_handler lb sv ev w))"

text \<open>The value a stage writes on success, and its place in the order.\<close>

fun stage_value :: "stage \<Rightarrow> string" where
  "stage_value Analysis = ''analysis_complete''"
| "stage_value Research = ''research_complete''"
| "stage_value Report = ''report_generated''"

fun stage_position :: "stage \<Rightarrow> nat" where
  "stage_position Analysis = 1"
| "stage_position Research = 2"
| "stage_position Report = 3"


section \<open>Libraries and services for concrete runs\<close>

text \<open>
  Libraries for concrete runs: the UTF-8 decoders accept ASCII only, CP-1252 is
  undefined on the byte 0x81, the hash is a constant, \<open>json.loads\<close> reads the
  text \<open>{}\<close> only.
\<close>

definition ascii_decode :: "byte list \<Rightarrow> string + string" where
  "ascii_decode bs =
     (if \<forall>b \<in> set bs. unat b < 128 then Inr (map (\<lambda>b. char_of (unat b)) bs)
      else Inl ''invalid start byte'')"

text \<open>The wording of CPython 3.12.\<close>

fun cpython_type_error_text :: "type_fault \<Rightarrow> string" where
  "cpython_type_error_text (NotAContainer t) =
     ''argument of type '' @ [CHR 0x27] @ t @ [CHR 0x27] @ '' is not iterable''"
| "cpython_type_error_text (BadSubscript t) =
     (if t = ''list'' then ''list indices must be integers or slices, not str''
      else ''string indices must be integers, not '' @ [CHR 0x27] @ ''str'' @ [CHR 0x27])"
| "cpython_type_error_text (NotIterable t) =
     [CHR 0x27] @ t @ [CHR 0x27] @ '' object is not iterable''"

definition demo_libs :: libs where
  "demo_libs =
     \<lparr>PDF_SUPPORT = True,
      DOCX_SUPPORT = True,
      pdf_pages = (\<lambda>_. Inl ''EOF marker not found''),
      docx_paragraphs = (\<lambda>_. Inr []),
      decode_utf8 = ascii_decode,
      decode_utf8_sig = ascii_decode,
      decode_cp1252 = (\<lambda>bs. if 0x81 \<in> set bs then Inl ''character maps to <undefined>''
                              else Inr (map (\<lambda>b. char_of (unat b)) bs)),
      decode_utf8_ignore = (\<lambda>bs. map (\<lambda>b. char_of (unat b)) (filter (\<lambda>b. unat b < 128) bs)),
      json_loads = (\<lambda>s. if s = ''{}'' then Inr (JObj []) else Inl (JSONDecodeError ''Expecting value'')),
      json_dumps_indent2 = (\<lambda>_. ''{}''),
      md5_hexdigest = (\<lambda>_. ''d41d8cd98f00b204e9800998ecf8427e''),
      type_error_text = cpython_type_error_text\<rparr>"

text \<open>
  Services for concrete runs: every stored object is the empty file, the model
  answers every prompt with \<open>{}\<close>, the search key is missing, and the table,
  the object store and the invocations accept every request.
\<close>

definition demo_services :: services where
  "demo_services =
     \<lparr>now = 1730000123,
      utcnow = ''2024-10-27T03:35:23'',
      aws_request_id = ''req-1'',
      MAX_CONTENT_SIZE = 50000,
      NEXT_FUNCTION_NAME = ''analysis-agent'',
      get_object = (\<lambda>_ _. Inr []),
      put_item_error = (\<lambda>_. None),
      update_item_error = (\<lambda>_ _. None),
      put_object_error = (\<lambda>_ _. None),
      lambda_invoke = (\<lambda>_ _. Inr 202),
      bedrock_text = (\<lambda>_ _ _. Inr ''{}''),
      TAVILY_API_KEY = None,
      ssm_get_parameter = (\<lambda>_. Inl (OtherError ''AccessDenied'')),
      tavily_post = (\<lambda>_. Inl (RequestException ''timed out''))\<rparr>"

definition empty_world :: world where
  "empty_world = \<lparr>table = Map.empty, invocations = [], objects = []\<rparr>"



text \<open>Services that reject every invocation of a next stage.\<close>

definition invoke_rejected :: services where
  "invoke_rejected = demo_services\<lparr>lambda_invoke := (\<lambda>_ _. Inl (OtherError ''Rate exceeded''))\<rparr>"





section \<open>Properties of the ingestion stage's text extraction\<close>

lemma startswith_append [simp]: "startswith (p @ s) p"
  by (simp add: startswith_def)

lemma extract_by_type_success:
  "extract_by_type lb bs r = Inr r' \<Longrightarrow> extraction_success r' = extraction_success r"
  by (auto simp: extract_by_type_def Let_def
      split: if_splits option.splits sum.splits exn.splits prod.splits)

lemma check_and_count_content [simp]: "content (check_and_count r) = content r"
  by (simp add: check_and_count_def Let_def)

lemma check_and_count_success:
  "extraction_success (check_and_count r) =
     (extraction_success r \<or> (content r \<noteq> [] \<and> \<not> startswith (content r) ''ERROR:''))"
  by (simp add: check_and_count_def Let_def)

text \<open>
  Claim C5. For every file and filename, the \<open>extraction_success\<close> flag of the
  result of \<open>extract_text_content\<close> is true exactly when the resulting content is
  non-empty and does not begin with \<open>ERROR:\<close>. The result of the exception
  handler begins with \<open>ERROR:\<close> and keeps the flag false; a \<open>WARNING:\<close> content
  is non-empty without that prefix, so it counts as a success.
\<close>

theorem extraction_success_iff:
  "extraction_success (extract_text_content lb bs fname) \<longleftrightarrow>
     content (extract_text_content lb bs fname) \<noteq> [] \<and>
     \<not> startswith (content (extract_text_content lb bs fname)) ''ERROR:''"
proof (cases "extract_by_type lb bs
       \<lparr>filename = fname, file_extension = get_file_extension fname, file_size = length bs,
        extraction_method = ''unknown'', extraction_success = False, content = [],
        metadata = empty_metadata, warnings = []\<rparr>")
  case (Inl e)
  have "startswith (''ERROR: Failed to process file - '' @ str_exn e) ''ERROR:''"
    by (simp add: startswith_def)
  with Inl show ?thesis
    by (simp add: extract_text_content_def Let_def)
next
  case (Inr r)
  from extract_by_type_success [OF Inr] have "\<not> extraction_success r" by simp
  with Inr show ?thesis
    by (simp add: extract_text_content_def Let_def check_and_count_success)
qed


lemma try_encodings_text:
  "\<exists>s enc. try_encodings lb bs text_encodings = Some (s, enc) \<and>
      enc \<in> {''utf-8'', ''utf-8-sig'', ''latin-1''}"
  by (cases "decode_utf8 lb bs"; cases "decode_utf8_sig lb bs")
     (simp_all add: text_encodings_def decode_def)

lemma check_and_count_method [simp]:
  "extraction_method (check_and_count r) = extraction_method r"
  by (simp add: check_and_count_def Let_def)

lemma check_and_count_warnings [simp]: "warnings (check_and_count r) = warnings r"
  by (simp add: check_and_count_def Let_def)

lemma extract_by_type_text:
  assumes "lower (file_extension r) \<in> set [''.txt'', ''.md'', ''.csv'']"
  shows "\<exists>s enc. try_encodings lb bs text_encodings = Some (s, enc) \<and>
           enc \<in> {''utf-8'', ''utf-8-sig'', ''latin-1''} \<and>
           extract_by_type lb bs r =
             Inr (r\<lparr>content := s, extraction_method := ''text_decode_'' @ enc\<rparr>)"
proof -
  obtain s enc where t: "try_encodings lb bs text_encodings = Some (s, enc)"
    and e: "enc \<in> {''utf-8'', ''utf-8-sig'', ''latin-1''}"
    using try_encodings_text by blast
  from assms have ne: "lower (file_extension r) \<noteq> ''.pdf''"
    "lower (file_extension r) \<notin> set [''.docx'', ''.doc'']" by auto
  have "extract_by_type lb bs r = Inr (r\<lparr>content := s, extraction_method := ''text_decode_'' @ enc\<rparr>)"
    unfolding extract_by_type_def Let_def using assms ne t by simp
  with t e show ?thesis by blast
qed

text \<open>
  Claim C10. For every byte sequence and every filename whose extension is
  \<open>.txt\<close>, \<open>.md\<close> or \<open>.csv\<close> (in any case), the encoding loop stops at
  UTF-8, UTF-8-with-signature or Latin-1, since Latin-1 decodes every byte
  sequence; the recorded \<open>extraction_method\<close> is one of the three
  \<open>text_decode_\<close> methods of these encodings, it is never
  \<open>text_decode_fallback\<close>, and the fallback warning is never recorded.
\<close>

theorem text_decode_never_fallback:
  assumes "lower (get_file_extension fname) \<in> set [''.txt'', ''.md'', ''.csv'']"
  shows "(\<exists>s enc. try_encodings lb bs text_encodings = Some (s, enc) \<and>
            enc \<in> {''utf-8'', ''utf-8-sig'', ''latin-1''}) \<and>
         extraction_method (extract_text_content lb bs fname)
           \<in> {''text_decode_utf-8'', ''text_decode_utf-8-sig'', ''text_decode_latin-1''} \<and>
         extraction_method (extract_text_content lb bs fname) \<noteq> ''text_decode_fallback'' \<and>
         fallback_warning \<notin> set (warnings (extract_text_content lb bs fname))"
proof -
  let ?r = "\<lparr>filename = fname, file_extension = get_file_extension fname, file_size = length bs,
        extraction_method = ''unknown'', extraction_success = False, content = [],
        metadata = empty_metadata, warnings = []\<rparr>"
  from assms have "lower (file_extension ?r) \<in> set [''.txt'', ''.md'', ''.csv'']" by simp
  from extract_by_type_text [OF this, of lb bs]
  obtain s enc where t: "try_encodings lb bs text_encodings = Some (s, enc)"
    and e: "enc \<in> {''utf-8'', ''utf-8-sig'', ''latin-1''}"
    and x: "extract_by_type lb bs ?r = Inr (?r\<lparr>content := s, extraction_method := ''text_decode_'' @ enc\<rparr>)"
    by blast
  have m: "extraction_method (extract_text_content lb bs fname) = ''text_decode_'' @ enc"
    and w: "warnings (extract_text_content lb bs fname) = []"
    using x by (simp_all add: extract_text_content_def Let_def)
  from e have "''text_decode_'' @ enc \<in> {''text_decode_utf-8'', ''text_decode_utf-8-sig'', ''text_decode_latin-1''}"
    by auto
  moreover from e have "''text_decode_'' @ enc \<noteq> ''text_decode_fallback''" by auto
  ultimately show ?thesis using t e m w by auto
qed

lemma demo_ext: "lower (get_file_extension ''notes.TXT'') = ''.txt''"
  by code_simp

theorem text_decode_never_fallback_witness:
  "lower (get_file_extension ''notes.TXT'') \<in> set [''.txt'', ''.md'', ''.csv''] \<and>
   extraction_method (extract_text_content demo_libs [0x63, 0x61, 0x66, 0xE9] ''notes.TXT'')
     = ''text_decode_latin-1''"
proof -
  have h: "lower (get_file_extension ''notes.TXT'') \<in> set [''.txt'', ''.md'', ''.csv'']"
    by (simp add: demo_ext)
  have d: "try_encodings demo_libs [0x63, 0x61, 0x66, 0xE9] text_encodings
            = Some (decode_latin1 [0x63, 0x61, 0x66, 0xE9], ''latin-1'')"
    by (simp add: text_encodings_def decode_def demo_libs_def ascii_decode_def)
  have "extraction_method (extract_text_content demo_libs [0x63, 0x61, 0x66, 0xE9] ''notes.TXT'') = ''text_decode_latin-1''"
    by (simp add: extract_text_content_def Let_def extract_by_type_def demo_ext d)
  with h text_decode_never_fallback [OF h, of demo_libs "[0x63, 0x61, 0x66, 0xE9]"] show ?thesis by simp
qed

subsection \<open>Session identifiers\<close>

lemma split_on_nonempty [simp]: "split_on c s \<noteq> []"
  by (induction s) (auto split: list.splits)

lemma split_on_hd: "hd (split_on c s) = takeWhile (\<lambda>x. x \<noteq> c) s"
  by (induction s) (auto split: list.splits)

lemma takeWhile_no_dot: "c \<notin> set s \<Longrightarrow> takeWhile (\<lambda>x. x \<noteq> c) s = s"
  by (induction s) auto

lemma split_on_absent: "c \<notin> set s \<Longrightarrow> split_on c s = [s]"
  by (induction s) auto

lemma split_on_first: "c \<notin> set a \<Longrightarrow> split_on c (a @ c # b) = a # split_on c b"
  by (induction a) auto

lemma count_list_0_iff: "count_list xs x = 0 \<longleftrightarrow> x \<notin> set xs"
  by (induction xs) auto

lemma spec_base_name_single_dot:
  assumes "count_list fname CHR ''.'' \<le> 1"
  shows "spec_base_name fname = takeWhile (\<lambda>c. c \<noteq> CHR ''.'') fname"
proof (cases "CHR ''.'' \<in> set fname")
  case False
  then show ?thesis
    by (simp add: spec_base_name_def get_file_extension_def takeWhile_no_dot)
next
  case True
  then obtain a b where f: "fname = a @ CHR ''.'' # b" and a: "CHR ''.'' \<notin> set a"
    by (auto dest: split_list_first)
  from assms f have "count_list b CHR ''.'' = 0" by simp
  then have b: "CHR ''.'' \<notin> set b" by (simp add: count_list_0_iff)
  have "split_on CHR ''.'' fname = [a, b]"
    using a b f by (simp add: split_on_first split_on_absent)
  then have "get_file_extension fname = CHR ''.'' # b"
    using True by (simp add: get_file_extension_def)
  then have "spec_base_name fname = a"
    using f by (simp add: spec_base_name_def)
  moreover have "takeWhile (\<lambda>c. c \<noteq> CHR ''.'') fname = a"
    using a f by (simp add: takeWhile_no_dot takeWhile_append1 takeWhile_tail)
  ultimately show ?thesis by simp
qed

text \<open>
  Claim C6, amended. For every filename, content and time, the session
  identifier is the part of the filename before its first dot (the whole
  filename when it has no dot), then \<open>_\<close>, the first 8 characters of the MD5
  hex digest of the content, \<open>_\<close>, and the last 6 digits of the Unix time; it
  is a function of these three inputs alone. When the filename has at most one
  dot, this is the filename without its extension, as the specification words it.
\<close>

theorem session_id_format:
  "generate_session_id lb unix_time fname cont =
     takeWhile (\<lambda>c. c \<noteq> CHR ''.'') fname @ ''_'' @ take 8 (md5_hexdigest lb cont) @ ''_'' @
     drop (length (str_nat unix_time) - 6) (str_nat unix_time) \<and>
   (count_list fname CHR ''.'' \<le> 1 \<longrightarrow>
      generate_session_id lb unix_time fname cont = spec_session_id lb unix_time fname cont)"
  by (simp add: generate_session_id_def Let_def split_on_hd takeWhile_no_dot
      spec_session_id_def spec_base_name_single_dot)

lemma digit_char_numerals:
  "digit_char 0 = CHR ''0''" "digit_char 1 = CHR ''1''" "digit_char (Suc 0) = CHR ''1''"
  "digit_char 2 = CHR ''2''" "digit_char 3 = CHR ''3''" "digit_char 4 = CHR ''4''"
  "digit_char 5 = CHR ''5''" "digit_char 6 = CHR ''6''" "digit_char 7 = CHR ''7''"
  "digit_char 8 = CHR ''8''" "digit_char 9 = CHR ''9''"
  by code_simp+

theorem session_id_format_witness:
  "count_list ''q3-report.txt'' CHR ''.'' \<le> 1 \<and>
   generate_session_id demo_libs 1730000123 ''q3-report.txt'' ''Our Q3 revenue grew 12%.''
     = ''q3-report_d41d8cd9_000123'' \<and>
   spec_session_id demo_libs 1730000123 ''q3-report.txt'' ''Our Q3 revenue grew 12%.''
     = ''q3-report_d41d8cd9_000123''"
proof -
  have h: "count_list ''q3-report.txt'' CHR ''.'' \<le> 1" by simp
  have v: "generate_session_id demo_libs 1730000123 ''q3-report.txt'' ''Our Q3 revenue grew 12%.''
     = ''q3-report_d41d8cd9_000123''"
    by (simp add: generate_session_id_def Let_def demo_libs_def str_nat.simps digit_char_numerals)
  from session_id_format [of demo_libs 1730000123 "''q3-report.txt''" "''Our Q3 revenue grew 12%.''"] h
  have "generate_session_id demo_libs 1730000123 ''q3-report.txt'' ''Our Q3 revenue grew 12%.''
     = spec_session_id demo_libs 1730000123 ''q3-report.txt'' ''Our Q3 revenue grew 12%.''"
    by blast
  with v have "spec_session_id demo_libs 1730000123 ''q3-report.txt'' ''Our Q3 revenue grew 12%.''
     = ''q3-report_d41d8cd9_000123''" by simp
  with h v show ?thesis by blast
qed

text \<open>
  Claim C6 as stated takes the filename without its extension as the base. For
  \<open>report.v2.pdf\<close> that is \<open>report.v2\<close>; the code's identifier starts with
  \<open>report\<close>.
\<close>

theorem session_id_not_extension_stripped:
  "generate_session_id demo_libs 1730000123 ''report.v2.pdf'' ''text'' = ''report_d41d8cd9_000123'' \<and>
   spec_session_id demo_libs 1730000123 ''report.v2.pdf'' ''text'' = ''report.v2_d41d8cd9_000123'' \<and>
   generate_session_id demo_libs 1730000123 ''report.v2.pdf'' ''text''
     \<noteq> spec_session_id demo_libs 1730000123 ''report.v2.pdf'' ''text''"
  by (simp add: generate_session_id_def spec_session_id_def spec_base_name_def get_file_extension_def
      Let_def demo_libs_def str_nat.simps digit_char_numerals)


section \<open>Properties of the ingestion handler\<close>

lemma process_records_skip:
  "extraction_fails lb sv r \<Longrightarrow> process_records lb sv (r # rest) w = process_records lb sv rest w"
  by (auto simp: extraction_fails_def split: sum.splits prod.splits)

lemma process_records_all_fail:
  "\<forall>r \<in> set records. extraction_fails lb sv r \<Longrightarrow> process_records lb sv records w = (None, w)"
proof (induction records)
  case Nil
  then show ?case by simp
next
  case (Cons r records)
  then have "extraction_fails lb sv r" by simp
  from process_records_skip [OF this] Cons show ?case by simp
qed

lemma trigger_next_stage_effect:
  "invocations (snd (trigger_next_stage sv sid w)) =
     invocations w @ [(NEXT_FUNCTION_NAME sv,
        [(''session_id'', sid), (''trigger_source'', ''document_ingestion''), (''timestamp'', utcnow sv)])]"
  by (simp add: trigger_next_stage_def Let_def update_error_state_def try_update_item_def
      update_item_def split: sum.splits option.splits)

lemma trigger_next_stage_item:
  "table w sid = Some it \<Longrightarrow>
   \<exists>it'. table (snd (trigger_next_stage sv sid w)) sid = Some it' \<and>
         item.extraction_success it' = item.extraction_success it \<and>
         document_content it' = document_content it"
  by (simp add: trigger_next_stage_def Let_def update_error_state_def try_update_item_def
      update_item_def split: sum.splits option.splits)

lemma store_document_data_ok:
  assumes "put_item_error sv sid = None"
  shows "\<exists>it. store_document_data sv sid er bkt ky w = (True, put_item sid it w) \<and>
           item.extraction_success it = Some (extraction_success er) \<and>
           document_content it = Some (take (MAX_CONTENT_SIZE sv) (content er))"
  using assms by (auto simp add: store_document_data_def Let_def)

lemma direct_stores:
  assumes g: "get_object sv bkt ky = Inr file_bytes"
    and p: "put_item_error sv (generate_session_id lb (now sv) ky
                (content (extract_text_content lb file_bytes ky))) = None"
  shows "\<exists>w' it.
           ingestion_lambda_handler lb sv \<lparr>Records = None, bucket = Some bkt, key = Some ky\<rparr> w
             = (Response 200
                  (JObj [(''message'', JStr ''Document processed successfully''),
                         (''session_id'', JStr (generate_session_id lb (now sv) ky
                            (content (extract_text_content lb file_bytes ky)))),
                         (''extraction_success'',
                            JBool (extraction_success (extract_text_content lb file_bytes ky))),
                         (''content_length'',
                            JInt (int (length (content (extract_text_content lb file_bytes ky))))),
                         (''warnings'',
                            JArr (map JStr (warnings (extract_text_content lb file_bytes ky))))]), w') \<and>
           table w' (generate_session_id lb (now sv) ky (content (extract_text_content lb file_bytes ky)))
             = Some it \<and>
           item.extraction_success it = Some (extraction_success (extract_text_content lb file_bytes ky)) \<and>
           invocations w' = invocations w @ [(NEXT_FUNCTION_NAME sv,
              [(''session_id'', generate_session_id lb (now sv) ky (content (extract_text_content lb file_bytes ky))),
               (''trigger_source'', ''document_ingestion''), (''timestamp'', utcnow sv)])]"
proof -
  let ?er = "extract_text_content lb file_bytes ky"
  let ?sid = "generate_session_id lb (now sv) ky (content ?er)"
  from store_document_data_ok [OF p, of ?er bkt ky w]
  obtain it where s: "store_document_data sv ?sid ?er bkt ky w = (True, put_item ?sid it w)"
    and e: "item.extraction_success it = Some (extraction_success ?er)" by blast
  have "table (put_item ?sid it w) ?sid = Some it" by (simp add: put_item_def)
  from trigger_next_stage_item [OF this, of sv]
  obtain it' where t: "table (snd (trigger_next_stage sv ?sid (put_item ?sid it w))) ?sid = Some it'"
    and e': "item.extraction_success it' = item.extraction_success it" by blast
  have i: "invocations (put_item ?sid it w) = invocations w" by (simp add: put_item_def)
  show ?thesis
    using g s t e e' i
    by (simp add: ingestion_lambda_handler_def process_direct_def Let_def trigger_next_stage_effect)
qed

text \<open>
  Claim C2, amended. In notification mode, a record whose object is fetched and
  whose extraction did not succeed is skipped: the loop goes on with the rest
  of the records in an unchanged world, so no record is stored and the Analysis
  Stage is not invoked for it; when this holds of every record, the handler
  returns its completion result and leaves the world as it was. In direct
  invocation mode there is no such test: when the object is fetched and the
  store accepts the item, the record is stored under the session id with the
  extraction flag as it is, true or false, the Analysis Stage is invoked for
  it, and the result has status 200 and a body that reports the session id, the
  extraction flag, the length of the content and the warnings.
\<close>

theorem notification_skips_failed_extraction:
  "(extraction_fails lb sv r \<longrightarrow>
      process_records lb sv (r # rest) w = process_records lb sv rest w) \<and>
   ((\<forall>r \<in> set records. extraction_fails lb sv r) \<longrightarrow>
      ingestion_lambda_handler lb sv \<lparr>Records = Some records, bucket = b, key = k\<rparr> w
        = (Response 200 (JObj [(''message'', JStr ''Document ingestion completed'')]), w)) \<and>
   (get_object sv bkt ky = Inr file_bytes \<longrightarrow>
    put_item_error sv (generate_session_id lb (now sv) ky
                (content (extract_text_content lb file_bytes ky))) = None \<longrightarrow>
      (\<exists>w' it.
           ingestion_lambda_handler lb sv \<lparr>Records = None, bucket = Some bkt, key = Some ky\<rparr> w
             = (Response 200
                  (JObj [(''message'', JStr ''Document processed successfully''),
                         (''session_id'', JStr (generate_session_id lb (now sv) ky
                            (content (extract_text_content lb file_bytes ky)))),
                         (''extraction_success'',
                            JBool (extraction_success (extract_text_content lb file_bytes ky))),
                         (''content_length'',
                            JInt (int (length (content (extract_text_content lb file_bytes ky))))),
                         (''warnings'',
                            JArr (map JStr (warnings (extract_text_content lb file_bytes ky))))]), w') \<and>
           table w' (generate_session_id lb (now sv) ky (content (extract_text_content lb file_bytes ky)))
             = Some it \<and>
           item.extraction_success it = Some (extraction_success (extract_text_content lb file_bytes ky)) \<and>
           invocations w' = invocations w @ [(NEXT_FUNCTION_NAME sv,
              [(''session_id'', generate_session_id lb (now sv) ky (content (extract_text_content lb file_bytes ky))),
               (''trigger_source'', ''document_ingestion''), (''timestamp'', utcnow sv)])]))"
  using process_records_skip [of lb sv r rest w] process_records_all_fail [of records lb sv w]
    direct_stores [of sv bkt ky file_bytes lb w]
  by (simp add: ingestion_lambda_handler_def)

lemma empty_txt_extraction:
  "content (extract_text_content demo_libs [] ''empty.txt'') = []"
  "\<not> extraction_success (extract_text_content demo_libs [] ''empty.txt'')"
  "extraction_method (extract_text_content demo_libs [] ''empty.txt'') = ''text_decode_utf-8''"
  "warnings (extract_text_content demo_libs [] ''empty.txt'') = []"
  by (simp_all add: extract_text_content_def Let_def extract_by_type_def get_file_extension_def
      lower_def lower_char_def text_encodings_def decode_def demo_libs_def ascii_decode_def
      check_and_count_def)

lemma empty_txt_sid:
  "generate_session_id demo_libs (now demo_services) ''empty.txt'' [] = ''empty_d41d8cd9_000123''"
  by (simp add: generate_session_id_def Let_def demo_libs_def demo_services_def str_nat.simps
      digit_char_numerals)


lemma empty_txt_fails:
  "extraction_fails demo_libs demo_services
     \<lparr>eventSource = Some ''aws:s3'', s3_object = Inr (''docs'', ''empty.txt'')\<rparr>"
  by (simp add: extraction_fails_def demo_services_def empty_txt_extraction)

theorem notification_skips_failed_extraction_witness:
  "extraction_fails demo_libs demo_services
     \<lparr>eventSource = Some ''aws:s3'', s3_object = Inr (''docs'', ''empty.txt'')\<rparr> \<and>
   process_records demo_libs demo_services
     [\<lparr>eventSource = Some ''aws:s3'', s3_object = Inr (''docs'', ''empty.txt'')\<rparr>] empty_world
     = (None, empty_world) \<and>
   ingestion_lambda_handler demo_libs demo_services
     \<lparr>Records = Some [\<lparr>eventSource = Some ''aws:s3'', s3_object = Inr (''docs'', ''empty.txt'')\<rparr>],
      bucket = None, key = None\<rparr> empty_world
     = (Response 200 (JObj [(''message'', JStr ''Document ingestion completed'')]), empty_world) \<and>
   get_object demo_services ''docs'' ''empty.txt'' = Inr [] \<and>
   put_item_error demo_services ''empty_d41d8cd9_000123'' = None \<and>
   fst (ingestion_lambda_handler demo_libs demo_services
     \<lparr>Records = None, bucket = Some ''docs'', key = Some ''empty.txt''\<rparr> empty_world)
     = Response 200
         (JObj [(''message'', JStr ''Document processed successfully''),
                (''session_id'', JStr ''empty_d41d8cd9_000123''),
                (''extraction_success'', JBool False),
                (''content_length'', JInt 0),
                (''warnings'', JArr [])]) \<and>
   invocations (snd (ingestion_lambda_handler demo_libs demo_services
     \<lparr>Records = None, bucket = Some ''docs'', key = Some ''empty.txt''\<rparr> empty_world))
     = [(''analysis-agent'',
         [(''session_id'', ''empty_d41d8cd9_000123''),
          (''trigger_source'', ''document_ingestion''),
          (''timestamp'', ''2024-10-27T03:35:23'')])]"
proof -
  let ?r = "\<lparr>eventSource = Some ''aws:s3'', s3_object = Inr (''docs'', ''empty.txt'')\<rparr>"
  have g: "get_object demo_services ''docs'' ''empty.txt'' = Inr []"
    and p: "\<And>sid. put_item_error demo_services sid = None"
    and n: "NEXT_FUNCTION_NAME demo_services = ''analysis-agent''"
    and u: "utcnow demo_services = ''2024-10-27T03:35:23''"
    by (simp_all add: demo_services_def)
  have i: "invocations empty_world = []" by (simp add: empty_world_def)
  note t = notification_skips_failed_extraction [where lb = demo_libs and sv = demo_services
      and r = ?r and rest = "[]" and w = empty_world and records = "[?r]" and b = None and k = None
      and bkt = "''docs''" and ky = "''empty.txt''" and file_bytes = "[]"]
  from t empty_txt_fails have 1: "process_records demo_libs demo_services [?r] empty_world = (None, empty_world)"
    by simp
  from t empty_txt_fails have 2: "ingestion_lambda_handler demo_libs demo_services
     \<lparr>Records = Some [?r], bucket = None, key = None\<rparr> empty_world
     = (Response 200 (JObj [(''message'', JStr ''Document ingestion completed'')]), empty_world)"
    by simp
  from t g p have 3: "invocations (snd (ingestion_lambda_handler demo_libs demo_services
     \<lparr>Records = None, bucket = Some ''docs'', key = Some ''empty.txt''\<rparr> empty_world))
     = [(''analysis-agent'',
         [(''session_id'', ''empty_d41d8cd9_000123''),
          (''trigger_source'', ''document_ingestion''),
          (''timestamp'', ''2024-10-27T03:35:23'')])]"
    by (auto simp add: empty_txt_extraction empty_txt_sid n u i)
  from t g p have 4: "fst (ingestion_lambda_handler demo_libs demo_services
     \<lparr>Records = None, bucket = Some ''docs'', key = Some ''empty.txt''\<rparr> empty_world)
     = Response 200
         (JObj [(''message'', JStr ''Document processed successfully''),
                (''session_id'', JStr ''empty_d41d8cd9_000123''),
                (''extraction_success'', JBool False),
                (''content_length'', JInt 0),
                (''warnings'', JArr [])])"
    by (auto simp add: empty_txt_extraction empty_txt_sid n u i)
  from empty_txt_fails 1 2 3 4 g p show ?thesis by blast
qed

text \<open>
  Claim C2 as stated covers direct invocation too. The empty file \<open>empty.txt\<close>
  has empty content and a false extraction flag; invoked directly, the handler
  stores a record for it and invokes the Analysis Stage.
\<close>

theorem direct_invocation_stores_failed_extraction:
  "content (extract_text_content demo_libs [] ''empty.txt'') = [] \<and>
   \<not> extraction_success (extract_text_content demo_libs [] ''empty.txt'') \<and>
   get_object demo_services ''docs'' ''empty.txt'' = Inr [] \<and>
   table (snd (ingestion_lambda_handler demo_libs demo_services
     \<lparr>Records = None, bucket = Some ''docs'', key = Some ''empty.txt''\<rparr> empty_world))
     ''empty_d41d8cd9_000123'' \<noteq> None \<and>
   invocations (snd (ingestion_lambda_handler demo_libs demo_services
     \<lparr>Records = None, bucket = Some ''docs'', key = Some ''empty.txt''\<rparr> empty_world))
     = [(''analysis-agent'',
         [(''session_id'', ''empty_d41d8cd9_000123''),
          (''trigger_source'', ''document_ingestion''),
          (''timestamp'', ''2024-10-27T03:35:23'')])]"
proof -
  have g: "get_object demo_services ''docs'' ''empty.txt'' = Inr []"
    and p: "\<And>sid. put_item_error demo_services sid = None"
    and n: "NEXT_FUNCTION_NAME demo_services = ''analysis-agent''"
    and u: "utcnow demo_services = ''2024-10-27T03:35:23''"
    by (simp_all add: demo_services_def)
  have i: "invocations empty_world = []" by (simp add: empty_world_def)
  from direct_stores [OF g p, of demo_libs empty_world]
  show ?thesis
    by (auto simp add: empty_txt_extraction empty_txt_sid n u i g)
qed


section \<open>Properties of the downstream stages\<close>

text \<open>
  Claim C4. For every invocation of the Analysis Stage: a payload with no
  session id (or an empty one) gives the 400 result \<open>Missing session_id\<close>; a
  session id with no record gives the 404 result \<open>Session not found\<close>; a record
  whose document content is absent or empty gives the 400 result
  \<open>No document content found\<close>; in each case the world the handler leaves,
  the table with it, is the one it was given.
\<close>

theorem analysis_missing_data:
  "((map_of ev ''session_id'' = None \<or> map_of ev ''session_id'' = Some []) \<longrightarrow>
      analysis_lambda_handler lb sv ev w
        = (Inr (Response 400 (JObj [(''error'', JStr ''Missing session_id'')])), w)) \<and>
   (map_of ev ''session_id'' = Some sid \<longrightarrow> sid \<noteq> [] \<longrightarrow> table w sid = None \<longrightarrow>
      analysis_lambda_handler lb sv ev w
        = (Inr (Response 404 (JObj [(''error'', JStr ''Session not found'')])), w)) \<and>
   (map_of ev ''session_id'' = Some sid \<longrightarrow> sid \<noteq> [] \<longrightarrow> table w sid = Some it \<longrightarrow>
    (document_content it = None \<or> document_content it = Some []) \<longrightarrow>
      analysis_lambda_handler lb sv ev w
        = (Inr (Response 400 (JObj [(''error'', JStr ''No document content found'')])), w))"
  by (auto simp: analysis_lambda_handler_def missing_session_id_def session_not_found_def
      no_document_content_def)

theorem analysis_missing_data_witness:
  "analysis_lambda_handler demo_libs demo_services [(''trigger_source'', ''document_ingestion'')] empty_world
     = (Inr (Response 400 (JObj [(''error'', JStr ''Missing session_id'')])), empty_world) \<and>
   analysis_lambda_handler demo_libs demo_services [(''session_id'', ''s1'')] empty_world
     = (Inr (Response 404 (JObj [(''error'', JStr ''Session not found'')])), empty_world) \<and>
   analysis_lambda_handler demo_libs demo_services [(''session_id'', ''s1'')]
       \<lparr>table = [''s1'' \<mapsto> empty_item\<lparr>document_content := Some []\<rparr>], invocations = [], objects = []\<rparr>
     = (Inr (Response 400 (JObj [(''error'', JStr ''No document content found'')])),
        \<lparr>table = [''s1'' \<mapsto> empty_item\<lparr>document_content := Some []\<rparr>], invocations = [], objects = []\<rparr>)"
  using analysis_missing_data [where ev = "[(''trigger_source'', ''document_ingestion'')]"
      and lb = demo_libs and sv = demo_services and w = empty_world]
    analysis_missing_data [where ev = "[(''session_id'', ''s1'')]" and sid = "''s1''"
      and lb = demo_libs and sv = demo_services and w = empty_world]
    analysis_missing_data [where ev = "[(''session_id'', ''s1'')]" and sid = "''s1''"
      and lb = demo_libs and sv = demo_services
      and it = "empty_item\<lparr>document_content := Some []\<rparr>"
      and w = "\<lparr>table = [''s1'' \<mapsto> empty_item\<lparr>document_content := Some []\<rparr>], invocations = [], objects = []\<rparr>"]
  by (simp add: empty_world_def)

subsection \<open>Missing upstream data in the three downstream stages\<close>

lemma table_update_item:
  "table (update_item sid' f w) sid =
     (if sid = sid' then Some (f (case table w sid' of None \<Rightarrow> empty_item | Some it \<Rightarrow> it))
      else table w sid)"
  by (simp add: update_item_def)

lemma invocations_update_item [simp]: "invocations (update_item sid f w) = invocations w"
  by (simp add: update_item_def)

lemma research_no_questions:
  assumes "map_of ev ''session_id'' = Some sid" "table w sid = Some it"
    and "py_get_default (case analysis_result it of None \<Rightarrow> JObj [] | Some a \<Rightarrow> a)
           ''research_questions'' (JArr []) = Inr rq" "\<not> truthy rq"
  shows "research_lambda_handler lb sv ev w
           = Some (Inr (PlainResponse 400 ''No research questions found''), w)"
  using assms by (simp add: research_lambda_handler_def)

lemma report_no_check:
  assumes "map_of ev ''session_id'' = Some sid" "table w sid = Some it"
    and "\<not> has_number (case analysis_result it of None \<Rightarrow> JObj [] | Some a \<Rightarrow> a)"
    and "\<not> has_number (JObj (case research_findings it of None \<Rightarrow> [] | Some f \<Rightarrow> f))"
    and "bedrock_text sv ''anthropic.claude-3-haiku-20240307-v1:0'' 4000
           (report_prompt (case document_content it of None \<Rightarrow> [] | Some c \<Rightarrow> c)
              (json_dumps_indent2 lb (case analysis_result it of None \<Rightarrow> JObj [] | Some a \<Rightarrow> a))
              (json_dumps_indent2 lb (JObj (case research_findings it of None \<Rightarrow> [] | Some f \<Rightarrow> f))))
           = Inr report_text"
    and "put_object_error sv report_bucket_name
           (''reports/'' @ sid @ ''_report_'' @ str_nat (now sv) @ ''.txt'') = None"
    and "update_item_error sv sid
           (it\<lparr>workflow_stage := Some ''report_generated'',
               final_report := Some report_text,
               updated_at := Some (Inl (now sv))\<rparr>) = None"
  shows "\<exists>w'. report_lambda_handler lb sv ev w =
           (Inr (Response 200
              (JObj [(''message'', JStr ''Report generated successfully''),
                     (''session_id'', JStr sid),
                     (''report_s3_url'',
                        JStr (''s3://'' @ report_bucket_name @ ''/'' @
                              ''reports/'' @ sid @ ''_report_'' @ str_nat (now sv) @ ''.txt''))])),
            w') \<and>
           table w' sid = Some (it\<lparr>workflow_stage := Some ''report_generated'',
                                    final_report := Some report_text,
                                    updated_at := Some (Inl (now sv))\<rparr>)"
  using assms
  by (simp add: report_lambda_handler_def report_invoke_bedrock_model_def Let_def
      try_update_item_def table_update_item)

lemma analysis_guards:
  assumes "map_of ev ''session_id'' = None \<or> map_of ev ''session_id'' = Some [] \<or>
     (map_of ev ''session_id'' = Some sid \<and>
      (case table w sid of None \<Rightarrow> True
       | Some it \<Rightarrow> document_content it = None \<or> document_content it = Some []))"
  shows "\<exists>r. analysis_lambda_handler lb sv ev w = (Inr r, w) \<and>
           r \<in> set [Response 400 (JObj [(''error'', JStr ''Missing session_id'')]),
                     Response 404 (JObj [(''error'', JStr ''Session not found'')]),
                     Response 400 (JObj [(''error'', JStr ''No document content found'')])]"
  using assms
  by (auto simp: analysis_lambda_handler_def missing_session_id_def session_not_found_def
      no_document_content_def split: option.splits)

text \<open>
  Claim C3, amended. The Analysis Stage returns one of its three error results
  (400 \<open>Missing session_id\<close>, 404 \<open>Session not found\<close>, 400
  \<open>No document content found\<close>), and leaves the world unchanged, when the
  session id is missing or empty, when no record exists, or when the document
  content is absent or empty. The Research Stage, given a session id whose
  record exists, returns the 400 result \<open>No research questions found\<close> and
  leaves the world unchanged when the research questions are absent or empty.
  The Report Generation Stage makes no test of the fields it reads: given a
  session id whose record exists, with the analysis and the findings absent or
  holding no number, it calls the model and, when the model answers and the
  object store and the table accept what it writes, returns its 200 result
  and sets the record to \<open>report_generated\<close>. What the Research and Report
  Generation stages do when the session id or the record is missing is not
  part of this statement.
\<close>

theorem downstream_missing_data:
  "((map_of ev ''session_id'' = None \<or> map_of ev ''session_id'' = Some [] \<or>
     (map_of ev ''session_id'' = Some sid \<and>
      (case table w sid of None \<Rightarrow> True
       | Some it \<Rightarrow> document_content it = None \<or> document_content it = Some []))) \<longrightarrow>
      (\<exists>r. analysis_lambda_handler lb sv ev w = (Inr r, w) \<and>
           r \<in> set [Response 400 (JObj [(''error'', JStr ''Missing session_id'')]),
                     Response 404 (JObj [(''error'', JStr ''Session not found'')]),
                     Response 400 (JObj [(''error'', JStr ''No document content found'')])])) \<and>
   (map_of ev ''session_id'' = Some sid \<longrightarrow> table w sid = Some it \<longrightarrow>
    py_get_default (case analysis_result it of None \<Rightarrow> JObj [] | Some a \<Rightarrow> a)
      ''research_questions'' (JArr []) = Inr rq \<longrightarrow> \<not> truthy rq \<longrightarrow>
      research_lambda_handler lb sv ev w
        = Some (Inr (PlainResponse 400 ''No research questions found''), w)) \<and>
   (map_of ev ''session_id'' = Some sid \<longrightarrow> table w sid = Some it \<longrightarrow>
    \<not> has_number (case analysis_result it of None \<Rightarrow> JObj [] | Some a \<Rightarrow> a) \<longrightarrow>
    \<not> has_number (JObj (case research_findings it of None \<Rightarrow> [] | Some f \<Rightarrow> f)) \<longrightarrow>
    bedrock_text sv ''anthropic.claude-3-haiku-20240307-v1:0'' 4000
      (report_prompt (case document_content it of None \<Rightarrow> [] | Some c \<Rightarrow> c)
         (json_dumps_indent2 lb (case analysis_result it of None \<Rightarrow> JObj [] | Some a \<Rightarrow> a))
         (json_dumps_indent2 lb (JObj (case research_findings it of None \<Rightarrow> [] | Some f \<Rightarrow> f))))
      = Inr report_text \<longrightarrow>
    put_object_error sv report_bucket_name
      (''reports/'' @ sid @ ''_report_'' @ str_nat (now sv) @ ''.txt'') = None \<longrightarrow>
    update_item_error sv sid
      (it\<lparr>workflow_stage := Some ''report_generated'',
          final_report := Some report_text,
          updated_at := Some (Inl (now sv))\<rparr>) = None \<longrightarrow>
      (\<exists>w'. report_lambda_handler lb sv ev w =
           (Inr (Response 200
              (JObj [(''message'', JStr ''Report generated successfully''),
                     (''session_id'', JStr sid),
                     (''report_s3_url'',
                        JStr (''s3://'' @ report_bucket_name @ ''/'' @
                              ''reports/'' @ sid @ ''_report_'' @ str_nat (now sv) @ ''.txt''))])),
            w') \<and>
           table w' sid = Some (it\<lparr>workflow_stage := Some ''report_generated'',
                                    final_report := Some report_text,
                                    updated_at := Some (Inl (now sv))\<rparr>)))"
  using analysis_guards [of ev sid w lb sv] research_no_questions [of ev sid w it rq lb sv]
    report_no_check [of ev sid w it sv lb report_text]
  by blast

text \<open>
  Claim C3 as stated has every downstream stage return an error result when the
  session id is missing from the payload or the record is absent. The Research
  and Report Generation stages raise \<open>KeyError\<close> in both cases.
\<close>

theorem research_and_report_raise_key_error:
  "research_lambda_handler demo_libs demo_services [(''previous_stage'', ''analysis_complete'')] empty_world
     = Some (Inl (KeyError ''session_id''), empty_world) \<and>
   research_lambda_handler demo_libs demo_services [(''session_id'', ''s1'')] empty_world
     = Some (Inl (KeyError ''Item''), empty_world) \<and>
   report_lambda_handler demo_libs demo_services [(''previous_stage'', ''research_complete'')] empty_world
     = (Inl (KeyError ''session_id''), empty_world) \<and>
   report_lambda_handler demo_libs demo_services [(''session_id'', ''s1'')] empty_world
     = (Inl (KeyError ''Item''), empty_world)"
  by (simp add: research_lambda_handler_def report_lambda_handler_def empty_world_def)

lemma report_key_demo:
  "''reports/'' @ ''s1'' @ ''_report_'' @ str_nat (now demo_services) @ ''.txt''
     = ''reports/s1_report_1730000123.txt''"
  by (simp add: demo_services_def str_nat.simps digit_char_numerals)

theorem downstream_missing_data_witness:
  "map_of [(''session_id'', ''s1'')] ''session_id'' = Some ''s1'' \<and>
   table \<lparr>table = [''s1'' \<mapsto> empty_item], invocations = [], objects = []\<rparr> ''s1'' = Some empty_item \<and>
   document_content empty_item = None \<and>
   \<not> truthy (JArr []) \<and>
   \<not> has_number (JObj []) \<and>
   analysis_lambda_handler demo_libs demo_services [(''session_id'', ''s1'')]
       \<lparr>table = [''s1'' \<mapsto> empty_item], invocations = [], objects = []\<rparr>
     = (Inr (Response 400 (JObj [(''error'', JStr ''No document content found'')])),
        \<lparr>table = [''s1'' \<mapsto> empty_item], invocations = [], objects = []\<rparr>) \<and>
   research_lambda_handler demo_libs demo_services [(''session_id'', ''s1'')]
       \<lparr>table = [''s1'' \<mapsto> empty_item], invocations = [], objects = []\<rparr>
     = Some (Inr (PlainResponse 400 ''No research questions found''),
             \<lparr>table = [''s1'' \<mapsto> empty_item], invocations = [], objects = []\<rparr>) \<and>
   (\<exists>w'. report_lambda_handler demo_libs demo_services [(''session_id'', ''s1'')]
            \<lparr>table = [''s1'' \<mapsto> empty_item], invocations = [], objects = []\<rparr> =
          (Inr (Response 200
              (JObj [(''message'', JStr ''Report generated successfully''),
                     (''session_id'', JStr ''s1''),
                     (''report_s3_url'',
                        JStr ''s3://learningawswithdadiyaharshwappnet/reports/s1_report_1730000123.txt'')])),
           w') \<and>
        table w' ''s1'' = Some (empty_item\<lparr>workflow_stage := Some ''report_generated'',
                                  final_report := Some ''{}'',
                                  updated_at := Some (Inl 1730000123)\<rparr>))"
proof -
  let ?w = "\<lparr>table = [''s1'' \<mapsto> empty_item], invocations = [], objects = []\<rparr>"
  have e: "document_content empty_item = None" "analysis_result empty_item = None"
    "research_findings empty_item = None"
    by (simp_all add: empty_item_def)
  have b: "\<And>m n p. bedrock_text demo_services m n p = Inr ''{}''"
    and n: "now demo_services = 1730000123"
    and po: "\<And>b k. put_object_error demo_services b k = None"
    and ue: "\<And>s i. update_item_error demo_services s i = None"
    by (simp_all add: demo_services_def)
  have h: "\<not> has_number (JObj [])" by simp
  note t = downstream_missing_data [where ev = "[(''session_id'', ''s1'')]" and sid = "''s1''"
      and w = ?w and it = empty_item and lb = demo_libs and sv = demo_services
      and rq = "JArr []" and report_text = "''{}''"]
  from t e have "\<exists>r. analysis_lambda_handler demo_libs demo_services [(''session_id'', ''s1'')] ?w
          = (Inr r, ?w) \<and>
           r \<in> set [Response 400 (JObj [(''error'', JStr ''Missing session_id'')]),
                     Response 404 (JObj [(''error'', JStr ''Session not found'')]),
                     Response 400 (JObj [(''error'', JStr ''No document content found'')])]"
    by simp
  moreover have "analysis_lambda_handler demo_libs demo_services [(''session_id'', ''s1'')] ?w
     = (Inr (Response 400 (JObj [(''error'', JStr ''No document content found'')])), ?w)"
    by (simp add: analysis_lambda_handler_def e no_document_content_def)
  ultimately have 1: "analysis_lambda_handler demo_libs demo_services [(''session_id'', ''s1'')] ?w
     = (Inr (Response 400 (JObj [(''error'', JStr ''No document content found'')])), ?w)"
    by blast
  from t e have 2: "research_lambda_handler demo_libs demo_services [(''session_id'', ''s1'')] ?w
     = Some (Inr (PlainResponse 400 ''No research questions found''), ?w)"
    by simp
  from t e b po ue h have 3: "\<exists>w'. report_lambda_handler demo_libs demo_services
         [(''session_id'', ''s1'')] ?w =
          (Inr (Response 200
              (JObj [(''message'', JStr ''Report generated successfully''),
                     (''session_id'', JStr ''s1''),
                     (''report_s3_url'',
                        JStr ''s3://learningawswithdadiyaharshwappnet/reports/s1_report_1730000123.txt'')])),
           w') \<and>
        table w' ''s1'' = Some (empty_item\<lparr>workflow_stage := Some ''report_generated'',
                                  final_report := Some ''{}'',
                                  updated_at := Some (Inl 1730000123)\<rparr>)"
    using report_key_demo by (simp add: n report_bucket_name_def)
  from 1 2 3 e h show ?thesis by simp
qed


subsection \<open>The workflow stage of a record under stage executions\<close>

lemma stage_rank_error [simp]: "stage_rank ''error'' = None"
  by (simp add: stage_rank_def)

lemma stage_rank_value [simp]: "stage_rank (stage_value st) = Some (stage_position st)"
  by (cases st) (simp_all add: stage_rank_def)

lemma ranked_not_error: "stage_rank s = Some n \<Longrightarrow> \<not> is_error_stage s"
  by (auto simp: stage_rank_def is_error_stage_def split: if_splits)

lemma not_regresses:
  assumes "stage_rank s = Some n" "n \<le> stage_position st"
    and "s' = s \<or> s' = stage_value st \<or> s' = ''error''"
  shows "\<not> regresses s s'"
  using assms ranked_not_error [OF assms(1)]
  by (auto simp: regresses_def)

lemma case_try_update_item:
  "(case try_update_item sv sid f w of Inl e \<Rightarrow> A e | Inr w' \<Rightarrow> B w') =
     (case update_item_error sv sid (f (case table w sid of None \<Rightarrow> empty_item | Some it \<Rightarrow> it)) of
        Some e \<Rightarrow> A e | None \<Rightarrow> B (update_item sid f w))"
  by (simp add: try_update_item_def split: option.split)

lemma analysis_stage_effect:
  assumes "table w sid = Some it"
  shows "\<exists>it'. table (snd (analysis_lambda_handler lb sv ev w)) sid = Some it' \<and>
           (workflow_stage it' = workflow_stage it \<or>
            workflow_stage it' = Some ''analysis_complete'' \<or>
            workflow_stage it' = Some ''error'')"
  using assms
  by (simp add: analysis_lambda_handler_def Let_def table_update_item update_workflow_error_def
      case_try_update_item split: option.split sum.split)

lemma research_stage_effect:
  assumes "table w sid = Some it" "research_lambda_handler lb sv ev w = Some (r, w')"
  shows "\<exists>it'. table w' sid = Some it' \<and>
           (workflow_stage it' = workflow_stage it \<or>
            workflow_stage it' = Some ''research_complete'')"
  using assms
  by (auto simp: research_lambda_handler_def Let_def table_update_item
      research_trigger_next_stage_def try_update_item_def update_item_def
      split: option.splits sum.splits if_splits)

lemma report_stage_effect:
  assumes "table w sid = Some it"
  shows "\<exists>it'. table (snd (report_lambda_handler lb sv ev w)) sid = Some it' \<and>
           (workflow_stage it' = workflow_stage it \<or>
            workflow_stage it' = Some ''report_generated'')"
proof (cases "map_of ev ''session_id''")
  case None
  with assms show ?thesis by (simp add: report_lambda_handler_def)
next
  case (Some sid')
  show ?thesis
  proof (cases "table w sid'")
    case None
    with Some assms show ?thesis by (simp add: report_lambda_handler_def)
  next
    case (Some it0)
    note it0 = this
    let ?analysis = "case analysis_result it0 of None \<Rightarrow> JObj [] | Some a \<Rightarrow> a"
    let ?findings = "case research_findings it0 of None \<Rightarrow> [] | Some f \<Rightarrow> f"
    show ?thesis
    proof (cases "has_number ?analysis \<or> has_number (JObj ?findings)")
      case True
      with \<open>map_of ev ''session_id'' = Some sid'\<close> it0 assms show ?thesis
        by (simp add: report_lambda_handler_def)
    next
      case False
      note nf = this
      let ?p = "report_prompt (case document_content it0 of None \<Rightarrow> [] | Some c \<Rightarrow> c)
                  (json_dumps_indent2 lb ?analysis) (json_dumps_indent2 lb (JObj ?findings))"
      show ?thesis
      proof (cases "bedrock_text sv ''anthropic.claude-3-haiku-20240307-v1:0'' 4000 ?p")
        case (Inl e)
        with nf \<open>map_of ev ''session_id'' = Some sid'\<close> it0 assms show ?thesis
          by (simp add: report_lambda_handler_def report_invoke_bedrock_model_def)
      next
        case (Inr report_text)
        note rt = this
        let ?k = "''reports/'' @ sid' @ ''_report_'' @ str_nat (now sv) @ ''.txt''"
        show ?thesis
        proof (cases "put_object_error sv report_bucket_name ?k")
          case (Some e)
          with rt nf \<open>map_of ev ''session_id'' = Some sid'\<close> it0 assms show ?thesis
            by (simp add: report_lambda_handler_def report_invoke_bedrock_model_def)
        next
          case None
          with rt nf \<open>map_of ev ''session_id'' = Some sid'\<close> it0 assms show ?thesis
            by (simp add: report_lambda_handler_def report_invoke_bedrock_model_def Let_def
                case_try_update_item table_update_item split: option.split)
        qed
      qed
    qed
  qed
qed

lemma run_stage_effect:
  assumes "table w sid = Some it" "run_stage lb sv st ev w = Some w'"
  shows "\<exists>it'. table w' sid = Some it' \<and>
           (workflow_stage it' = workflow_stage it \<or>
            workflow_stage it' = Some (stage_value st) \<or>
            (st = Analysis \<and> workflow_stage it' = Some ''error''))"
proof (cases st)
  case Analysis
  with assms analysis_stage_effect [OF assms(1), of lb sv ev] show ?thesis by auto
next
  case Research
  with assms obtain r where "research_lambda_handler lb sv ev w = Some (r, w')" by auto
  from research_stage_effect [OF assms(1) this] Research show ?thesis by auto
next
  case Report
  with assms report_stage_effect [OF assms(1), of lb sv ev] show ?thesis by auto
qed

lemma analysis_error_no_handoff_aux:
  assumes "table w sid = Some it" "workflow_stage it \<noteq> Some ''error''"
  shows "case table (snd (analysis_lambda_handler lb sv ev w)) sid of
           None \<Rightarrow> True
         | Some it' \<Rightarrow>
             workflow_stage it' = Some ''error'' \<longrightarrow>
             (\<forall>fp \<in> set (drop (length (invocations w))
                     (invocations (snd (analysis_lambda_handler lb sv ev w)))).
                isl (lambda_invoke sv (fst fp) (snd fp)))"
  using assms
  by (simp add: analysis_lambda_handler_def Let_def table_update_item update_workflow_error_def
      case_try_update_item split: option.split sum.split)

lemma analysis_error_no_handoff:
  assumes "table w sid = Some it" "workflow_stage it \<noteq> Some ''error''"
    and "table (snd (analysis_lambda_handler lb sv ev w)) sid = Some it'"
    and "workflow_stage it' = Some ''error''"
  shows "\<forall>fp \<in> set (drop (length (invocations w))
                     (invocations (snd (analysis_lambda_handler lb sv ev w)))).
           isl (lambda_invoke sv (fst fp) (snd fp))"
  using analysis_error_no_handoff_aux [OF assms(1,2), of lb sv ev] assms(3,4) by simp

text \<open>
  Claim C7, amended. A stage execution never reads \<open>workflow_stage\<close>: it leaves
  the field of a record as it is, or writes the stage's own value
  (\<open>analysis_complete\<close>, \<open>research_complete\<close>, \<open>report_generated\<close>), or, in the
  Analysis Stage, \<open>error\<close>. So for every record whose \<open>workflow_stage\<close> is one
  of the four values of the order and is not past the value of the stage that is
  executed (the order in which the pipeline hands a session from stage to
  stage), the execution does not move \<open>workflow_stage\<close> backward. When the
  execution leaves the record in the state \<open>error\<close>, every invocation of a next
  stage it made was rejected: the failed record is handed to no further stage.
\<close>

theorem stage_execution_in_order:
  assumes "table w sid = Some it" "workflow_stage it = Some s"
    and "run_stage lb sv st ev w = Some w'"
    and "stage_rank s = Some n" "n \<le> stage_position st"
  shows "\<exists>it' s'. table w' sid = Some it' \<and> workflow_stage it' = Some s' \<and>
           \<not> regresses s s' \<and>
           (s' = s \<or> s' = stage_value st \<or> (st = Analysis \<and> s' = ''error'')) \<and>
           (s' = ''error'' \<longrightarrow>
              (\<forall>fp \<in> set (drop (length (invocations w)) (invocations w')).
                 isl (lambda_invoke sv (fst fp) (snd fp))))"
proof -
  from run_stage_effect [OF assms(1) assms(3)] assms(2)
  obtain it' s' where t: "table w' sid = Some it'" and s: "workflow_stage it' = Some s'"
    and c: "s' = s \<or> s' = stage_value st \<or> (st = Analysis \<and> s' = ''error'')"
    by auto
  from c have "s' = s \<or> s' = stage_value st \<or> s' = ''error''" by blast
  from not_regresses [OF assms(4) assms(5) this] have r: "\<not> regresses s s'" .
  have e: "s' = ''error'' \<longrightarrow>
              (\<forall>fp \<in> set (drop (length (invocations w)) (invocations w')).
                 isl (lambda_invoke sv (fst fp) (snd fp)))"
  proof
    assume x: "s' = ''error''"
    from assms(4) have ne: "s \<noteq> ''error''" by auto
    have "stage_value st \<noteq> ''error''" by (cases st) simp_all
    with c x ne have a: "st = Analysis" by blast
    with assms(3) have w': "w' = snd (analysis_lambda_handler lb sv ev w)" by simp
    from assms(2) ne have "workflow_stage it \<noteq> Some ''error''" by simp
    from analysis_error_no_handoff [OF assms(1) this, of lb sv ev it'] t s x w'
    show "\<forall>fp \<in> set (drop (length (invocations w)) (invocations w')).
            isl (lambda_invoke sv (fst fp) (snd fp))" by simp
  qed
  from t s r c e show ?thesis by blast
qed

lemma analysis_demo_run:
  "map_option workflow_stage
     (table (snd (analysis_lambda_handler demo_libs demo_services [(''session_id'', ''s1'')]
        \<lparr>table = [''s1'' \<mapsto> empty_item\<lparr>workflow_stage := Some s0,
                                        document_content := Some ''text''\<rparr>],
         invocations = [], objects = []\<rparr>)) ''s1'')
     = Some (Some ''analysis_complete'')"
  by (simp add: analysis_lambda_handler_def analyze_def analysis_invoke_bedrock_model_def
      demo_libs_def demo_services_def Let_def update_item_def try_update_item_def)

lemma analysis_rejected_run:
  "map_option workflow_stage
     (table (snd (analysis_lambda_handler demo_libs invoke_rejected [(''session_id'', ''s1'')]
        \<lparr>table = [''s1'' \<mapsto> empty_item\<lparr>workflow_stage := Some s0,
                                        document_content := Some ''text''\<rparr>],
         invocations = [], objects = []\<rparr>)) ''s1'')
     = Some (Some ''error'')"
  "invocations (snd (analysis_lambda_handler demo_libs invoke_rejected [(''session_id'', ''s1'')]
        \<lparr>table = [''s1'' \<mapsto> empty_item\<lparr>workflow_stage := Some s0,
                                        document_content := Some ''text''\<rparr>],
         invocations = [], objects = []\<rparr>))
     = [(''research-agent'', [(''session_id'', ''s1'')])]"
  by (simp_all add: analysis_lambda_handler_def analyze_def analysis_invoke_bedrock_model_def
      demo_libs_def demo_services_def Let_def update_item_def invoke_rejected_def
      update_workflow_error_def try_update_item_def)

theorem stage_execution_in_order_witness:
  "table \<lparr>table = [''s1'' \<mapsto> empty_item\<lparr>workflow_stage := Some ''document_processed'',
                                          document_content := Some ''text''\<rparr>],
          invocations = [], objects = []\<rparr> ''s1''
     = Some (empty_item\<lparr>workflow_stage := Some ''document_processed'',
                        document_content := Some ''text''\<rparr>) \<and>
   stage_rank ''document_processed'' = Some 0 \<and>
   0 \<le> stage_position Analysis \<and>
   map_option workflow_stage
     (table (snd (analysis_lambda_handler demo_libs demo_services [(''session_id'', ''s1'')]
        \<lparr>table = [''s1'' \<mapsto> empty_item\<lparr>workflow_stage := Some ''document_processed'',
                                        document_content := Some ''text''\<rparr>],
         invocations = [], objects = []\<rparr>)) ''s1'')
     = Some (Some ''analysis_complete'') \<and>
   \<not> regresses ''document_processed'' ''analysis_complete'' \<and>
   map_option workflow_stage
     (table (snd (analysis_lambda_handler demo_libs invoke_rejected [(''session_id'', ''s1'')]
        \<lparr>table = [''s1'' \<mapsto> empty_item\<lparr>workflow_stage := Some ''document_processed'',
                                        document_content := Some ''text''\<rparr>],
         invocations = [], objects = []\<rparr>)) ''s1'')
     = Some (Some ''error'') \<and>
   \<not> regresses ''document_processed'' ''error'' \<and>
   isl (lambda_invoke invoke_rejected ''research-agent'' [(''session_id'', ''s1'')])"
proof -
  let ?it = "empty_item\<lparr>workflow_stage := Some ''document_processed'',
                        document_content := Some ''text''\<rparr>"
  let ?w = "\<lparr>table = [''s1'' \<mapsto> ?it], invocations = [], objects = []\<rparr>"
  let ?w' = "snd (analysis_lambda_handler demo_libs demo_services [(''session_id'', ''s1'')] ?w)"
  let ?v' = "snd (analysis_lambda_handler demo_libs invoke_rejected [(''session_id'', ''s1'')] ?w)"
  have 1: "table ?w ''s1'' = Some ?it" by simp
  have 2: "workflow_stage ?it = Some ''document_processed''" by simp
  have 3: "run_stage demo_libs demo_services Analysis [(''session_id'', ''s1'')] ?w = Some ?w'"
    by simp
  have 6: "run_stage demo_libs invoke_rejected Analysis [(''session_id'', ''s1'')] ?w = Some ?v'"
    by simp
  have 4: "stage_rank ''document_processed'' = Some 0" by (simp add: stage_rank_def)
  have 5: "0 \<le> stage_position Analysis" by simp
  from stage_execution_in_order [OF 1 2 3 4 5]
  obtain it' s' where t: "table ?w' ''s1'' = Some it'" and s: "workflow_stage it' = Some s'"
    and r: "\<not> regresses ''document_processed'' s'" by blast
  from analysis_demo_run [of "''document_processed''"] t s have "s' = ''analysis_complete''"
    by simp
  with r have a: "\<not> regresses ''document_processed'' ''analysis_complete''" by simp
  from stage_execution_in_order [OF 1 2 6 4 5]
  obtain jt' u' where t': "table ?v' ''s1'' = Some jt'" and s': "workflow_stage jt' = Some u'"
    and r': "\<not> regresses ''document_processed'' u'"
    and e': "u' = ''error'' \<longrightarrow>
              (\<forall>fp \<in> set (drop (length (invocations ?w)) (invocations ?v')).
                 isl (lambda_invoke invoke_rejected (fst fp) (snd fp)))"
    by blast
  from analysis_rejected_run(1) [of "''document_processed''"] t' s' have u: "u' = ''error''"
    by simp
  with r' have b: "\<not> regresses ''document_processed'' ''error''" by simp
  from e' u analysis_rejected_run(2) [of "''document_processed''"]
  have c: "isl (lambda_invoke invoke_rejected ''research-agent'' [(''session_id'', ''s1'')])"
    by simp
  note d = analysis_demo_run [of "''document_processed''"]
  note f = analysis_rejected_run(1) [of "''document_processed''"]
  show ?thesis
    by (intro conjI; (rule 1 | rule 4 | rule 5 | rule d | rule a | rule f | rule b | rule c))
qed


text \<open>
  Claim C7 as stated holds of every sequence of stage executions. The Analysis
  Stage, executed for a session whose record is at \<open>report_generated\<close>, sets it
  back to \<open>analysis_complete\<close>; executed for a record in the state \<open>error\<close>, it
  sets it to \<open>analysis_complete\<close> as well.
\<close>

theorem analysis_rerun_moves_stage_backward:
  "map_option workflow_stage
     (table (snd (analysis_lambda_handler demo_libs demo_services [(''session_id'', ''s1'')]
        \<lparr>table = [''s1'' \<mapsto> empty_item\<lparr>workflow_stage := Some ''report_generated'',
                                        document_content := Some ''text''\<rparr>],
         invocations = [], objects = []\<rparr>)) ''s1'')
     = Some (Some ''analysis_complete'') \<and>
   regresses ''report_generated'' ''analysis_complete'' \<and>
   map_option workflow_stage
     (table (snd (analysis_lambda_handler demo_libs demo_services [(''session_id'', ''s1'')]
        \<lparr>table = [''s1'' \<mapsto> empty_item\<lparr>workflow_stage := Some ''error'',
                                        document_content := Some ''text''\<rparr>],
         invocations = [], objects = []\<rparr>)) ''s1'')
     = Some (Some ''analysis_complete'') \<and>
   regresses ''error'' ''analysis_complete''"
  using analysis_demo_run [of "''report_generated''"] analysis_demo_run [of "''error''"]
  by (simp add: regresses_def is_error_stage_def stage_rank_def)


subsection \<open>The findings of the Research Stage\<close>









lemma strings_of_JStr [simp]: "strings_of (map JStr qs) = Some qs"
  by (induction qs) auto


lemma has_float_error_finding [simp]: "\<not> has_float (error_finding e)"
  by (simp add: error_finding_def)














section \<open>Properties of the website-crawl tool\<close>

lemma crawl_try_unreachable:
  "fst (crawl_try unreachable_env ''https://example.invalid'' ''pricing'')
     = Inl (RequestException ''Connection refused'')"
  by (simp add: crawl_try_def unreachable_env_def)

text \<open>
  Claim C8. For every url and query, and whatever the crawl service does,
  \<open>crawl_website\<close> returns a value and never raises; when the submission, the
  retrieval or the reading of either response raises an exception \<open>e\<close>, the
  value returned is the mapping \<open>{"error": str(e)}\<close>.
\<close>

theorem crawl_website_never_raises:
  "(\<exists>v. fst (crawl_website env url query) = Inr v) \<and>
   (\<forall>e. fst (crawl_try env url query) = Inl e \<longrightarrow>
        fst (crawl_website env url query) = Inr (JObj [(''error'', JStr (str_exn e))]))"
  by (cases "crawl_try env url query"; cases "fst (crawl_try env url query)")
     (auto simp: crawl_website_def)

theorem crawl_website_never_raises_witness:
  "fst (crawl_try unreachable_env ''https://example.invalid'' ''pricing'')
     = Inl (RequestException ''Connection refused'') \<and>
   fst (crawl_website unreachable_env ''https://example.invalid'' ''pricing'')
     = Inr (JObj [(''error'', JStr ''Connection refused'')])"
  using crawl_website_never_raises [of unreachable_env "''https://example.invalid''" "''pricing''"]
    crawl_try_unreachable
  by simp

text \<open>
  Claim C9 says that the submission POST and the retrieval GET both carry
  \<open>Authorization: Bearer <FIRECRAWL_API_KEY>\<close>. With the key \<open>fc-123\<close> the GET
  does, and the POST carries the literal text \<open>Bearer {FIRECRAWL_API_KEY}\<close>.
\<close>

theorem crawl_submit_authorization_literal:
  "map authorization (snd (crawl_website answering_env ''https://example.com'' ''pricing''))
     = [Some ''Bearer {FIRECRAWL_API_KEY}'', Some ''Bearer fc-123'']"
  by (simp add: crawl_website_def crawl_try_def answering_env_def submit_headers_def
        result_header_def authorization_def format_env_def)

end
